theory Spec2Isabelle
  imports Main "HOL-Library.AList"
begin

section \<open>Data model of the MCP bridge plugin\<close>

text \<open>
  The plugin of \<^verbatim>\<open>plugin.go\<close> keeps two registries behind one mutex: the tools
  declared by the PHP workers and the sessions of the connected clients. Every
  operation below runs with the mutex held (or, for \<^verbatim>\<open>sendEvent\<close>, reads the
  session registry under the read lock), so each one is a function from the plugin
  state to the plugin state. What an operation does to its collaborators (the MCP
  SDK server, the worker pool, the HTTP response writer) is appended to an effect
  trace carried by the state. Calls of the logger are left out.
\<close>

subsection \<open>Values exchanged with the collaborators\<close>

text \<open>
  \<^verbatim>\<open>map[string]interface{}\<close> and \<^verbatim>\<open>json.RawMessage\<close> values are JSON documents.
\<close>

datatype json =
    JNull
  | JBool bool
  | JNum int
  | JStr string
  | JArr "json list"
  | JObj "(string \<times> json) list"

text \<open>
  A Go \<^verbatim>\<open>[]byte\<close> is either the nil slice or a (possibly empty) sequence of bytes.
\<close>

type_synonym byte_slice = "string option"

text \<open>
  Error values that come out of a collaborator: the context package, the worker
  pool, a worker's response, \<^verbatim>\<open>encoding/json\<close>, the SDK.
\<close>

datatype ext_error =
    ContextCanceled
  | ContextDeadlineExceeded
  | PoolError string
  | WorkerError string
  | JsonError string
  | ConnectError string

text \<open>
  The errors the plugin builds itself: \<^verbatim>\<open>errors.Str(msg)\<close> and \<^verbatim>\<open>fmt.Errorf\<close> without
  \<^verbatim>\<open>%w\<close> are leaves, \<^verbatim>\<open>fmt.Errorf("prefix: %w", err)\<close> wraps, \<^verbatim>\<open>errors.E(op, err)\<close>
  tags an error with the operation.
\<close>

datatype error =
    Str string
  | Ext ext_error
  | Wrapf string error
  | E string error

text \<open>What \<^verbatim>\<open>errors.Is\<close> finds at the bottom of the chain of wrappers.\<close>

fun root_cause :: "error \<Rightarrow> error" where
  "root_cause (Wrapf _ e) = root_cause e"
| "root_cause (E _ e) = root_cause e"
| "root_cause e = e"

definition is_cancelled :: "error \<Rightarrow> bool" where
  "is_cancelled e \<longleftrightarrow>
     root_cause e = Ext ContextCanceled \<or> root_cause e = Ext ContextDeadlineExceeded"

subsection \<open>Types of \<^verbatim>\<open>types.go\<close>\<close>

record ToolDefinition =
  Name :: string
  Description :: string
  InputSchema :: json

record DeclareToolsRequest =
  Tools :: "ToolDefinition list"

record DeclareToolsResponse =
  Registered :: "string list"
  Updated :: "string list"

record ClientConnectedPayload =
  ccp_SessionID :: string
  Credentials :: "(string \<times> string) list"

record ClientConnectedResponse =
  Allowed :: bool
  ccr_Token :: string
  Message :: string

record CallToolPayload =
  ctp_SessionID :: string
  ToolName :: string
  Arguments :: string

record MCPContent =
  Type :: string
  Text :: string
  Data :: string
  URI :: string
  MimeType :: string

record CallToolResponse =
  Content :: "MCPContent list"
  IsError :: bool

record SessionInfo =
  ID :: string
  Token :: string
  ConnectedAt :: nat
  LastActivity :: nat
  si_Transport :: string
  Metadata :: "(string \<times> json) list option"

definition EventClientConnected :: string where
  "EventClientConnected = ''ClientConnected''"

definition EventCallTool :: string where
  "EventCallTool = ''CallTool''"

subsection \<open>Types of the MCP SDK and of the worker pool that the plugin touches\<close>

text \<open>\<^verbatim>\<open>mcp.Tool\<close>, with the three fields \<^verbatim>\<open>DeclareTools\<close> fills in.\<close>

record Tool =
  tool_Name :: string
  tool_Description :: string
  tool_InputSchema :: json

datatype mcp_content =
    TextContent string
  | ImageContent string string

record CallToolResult =
  res_Content :: "mcp_content list"
  res_IsError :: bool

text \<open>
  \<^verbatim>\<open>mcp.CallToolRequest\<close>: both \<^verbatim>\<open>Params\<close> and \<^verbatim>\<open>Params.Meta\<close> may be nil.
\<close>

record CallToolParams =
  Meta :: "(string \<times> json) list option"

record CallToolRequest =
  Params :: "CallToolParams option"

text \<open>\<^verbatim>\<open>payload.Payload\<close>, the envelope handed to the worker pool.\<close>

record Payload =
  Context :: string
  Body :: string

text \<open>
  The two payload shapes \<^verbatim>\<open>sendEvent\<close> is called with (its parameter has type
  \<^verbatim>\<open>interface{}\<close>).
\<close>

datatype event_payload =
    ClientConnected ClientConnectedPayload
  | CallTool CallToolPayload

text \<open>
  What the caller's \<^verbatim>\<open>context.Context\<close> says when it is asked: still running,
  cancelled, or past its deadline.
\<close>

datatype ctx = CtxActive | CtxCanceled | CtxDeadlineExceeded

definition ctx_done :: "ctx \<Rightarrow> bool" where
  "ctx_done c \<longleftrightarrow> c \<noteq> CtxActive"

text \<open>
  \<^verbatim>\<open>ctx.Err()\<close>: nil while the context is running, \<^verbatim>\<open>context.Canceled\<close> or
  \<^verbatim>\<open>context.DeadlineExceeded\<close> once it is done.
\<close>

definition ctx_Err :: "ctx \<Rightarrow> ext_error option" where
  "ctx_Err c =
     (case c of
        CtxActive \<Rightarrow> None
      | CtxCanceled \<Rightarrow> Some ContextCanceled
      | CtxDeadlineExceeded \<Rightarrow> Some ContextDeadlineExceeded)"

text \<open>
  One element read from the pool's response channel (\<^verbatim>\<open>*PExec\<close>): its \<^verbatim>\<open>Error()\<close>
  and its \<^verbatim>\<open>Body()\<close>.
\<close>

record Response =
  resp_Error :: "ext_error option"
  resp_Body :: byte_slice

text \<open>
  The response channel as its reader sees it: the next receive yields a message, or
  finds the channel closed, or never comes back because the channel stays open and
  silent.
\<close>

datatype resp_chan =
    Closed
  | Blocked
  | Msg Response resp_chan

subsection \<open>Configuration (\<^verbatim>\<open>config.go\<close>)\<close>

text \<open>
  The nested structs \<^verbatim>\<open>Clients\<close>, \<^verbatim>\<open>Tools\<close> and \<^verbatim>\<open>Auth\<close> are flattened. Durations are
  nanoseconds, as \<^verbatim>\<open>time.Duration\<close> counts them. The pool configuration belongs to
  the pool library: \<^typ>\<open>'pc\<close> stands for \<^verbatim>\<open>pool.Config\<close>, and a nil pointer is
  \<^term>\<open>None\<close>.
\<close>

record 'pc Config =
  Transport :: string
  Address :: string
  Pool :: "'pc option"
  MaxConnections :: int
  ReadTimeout :: int
  WriteTimeout :: int
  PingInterval :: int
  NotifyClientsOnChange :: bool
  Enabled :: bool
  SkipForStdio :: bool
  Debug :: bool

definition Second :: int where
  "Second = 1000000000"

subsection \<open>The plugin state\<close>

datatype effect =
    AddTool Tool string
  | NotifyToolsChanged
  | PoolExec ctx Payload
  | HttpError string nat
  | Connect string

text \<open>
  The tool registry \<^verbatim>\<open>map[string]*mcp.Tool\<close> is an association list that is only
  written through \<^const>\<open>AList.update\<close> and \<^const>\<open>AList.delete\<close>, which is what
  \<^verbatim>\<open>m[k] = v\<close> and \<^verbatim>\<open>delete(m, k)\<close> do to a Go map; that its keys stay distinct is
  then a property to prove. The session registry is a finite map. In an
  \<^term>\<open>AddTool tool name\<close> effect, \<^term>\<open>name\<close> is the tool name the installed
  handler closes over.
\<close>

record 'pc Plugin =
  cfg :: "'pc Config"
  tools :: "(string \<times> Tool) list"
  sessions :: "string \<rightharpoonup> SessionInfo"
  trace :: "effect list"

definition emit :: "effect \<Rightarrow> 'pc Plugin \<Rightarrow> 'pc Plugin" where
  "emit ev p = p\<lparr>trace := trace p @ [ev]\<rparr>"

subsection \<open>The collaborators\<close>

text \<open>
  What the plugin calls but does not implement is a parameter of the model:
  \<^verbatim>\<open>json.Marshal\<close> on an event payload and on the arguments of a tool call,
  \<^verbatim>\<open>json.Unmarshal\<close> into the two response structs, \<^verbatim>\<open>fmt.Sprintf("%v", _)\<close>, the
  worker pool's \<^verbatim>\<open>Exec\<close>, the SDK's \<^verbatim>\<open>Connect\<close> and \<^verbatim>\<open>AddTool\<close>, and the clock (one
  reading per operation).

  \<^verbatim>\<open>mcp.AddTool\<close> does not return an error: it panics on a tool it does not accept (the
  SDK rejects, for one, an input schema whose type is not \<^verbatim>\<open>object\<close>). The plugin has
  no \<^verbatim>\<open>recover\<close>, so the panic leaves \<^verbatim>\<open>DeclareTools\<close> at once. \<^term>\<open>mcp_AddTool env tool\<close>
  says whether the SDK accepts \<^term>\<open>tool\<close>, that is, whether the call returns.
\<close>

record env =
  json_Marshal :: "event_payload \<Rightarrow> ext_error + string"
  json_Marshal_args :: "(string \<times> json) list option \<Rightarrow> ext_error + string"
  Unmarshal_CallToolResponse :: "byte_slice \<Rightarrow> ext_error + CallToolResponse"
  Unmarshal_ClientConnectedResponse :: "byte_slice \<Rightarrow> ext_error + ClientConnectedResponse"
  Sprintf_v :: "json \<Rightarrow> string"
  pool_Exec :: "ctx \<Rightarrow> Payload \<Rightarrow> ext_error + resp_chan"
  mcpServer_Connect :: "string \<Rightarrow> ext_error option"
  mcp_AddTool :: "Tool \<Rightarrow> bool"
  time_Now :: nat

section \<open>The RPC service (\<^verbatim>\<open>rpc.go\<close>)\<close>

text \<open>
  \<^verbatim>\<open>notifyToolsChanged\<close> only writes a log line so far; the call itself is what the
  trace records.
\<close>

definition notifyToolsChanged :: "'pc Plugin \<Rightarrow> 'pc Plugin" where
  "notifyToolsChanged p = emit NotifyToolsChanged p"

definition mk_tool :: "ToolDefinition \<Rightarrow> Tool" where
  "mk_tool toolDef =
     \<lparr>tool_Name = Name toolDef,
      tool_Description = Description toolDef,
      tool_InputSchema = InputSchema toolDef\<rparr>"

text \<open>
  One iteration of the loop of \<^verbatim>\<open>DeclareTools\<close> over \<^verbatim>\<open>req.Tools\<close>. It looks the name
  up, builds the tool and calls \<^verbatim>\<open>mcp.AddTool\<close>; when that call panics the iteration
  ends there (\<^term>\<open>None\<close>), before the registry and the response are written.
  \<^term>\<open>declare_step\<close> is the rest of the iteration, after \<^verbatim>\<open>mcp.AddTool\<close> has returned.
\<close>

definition declare_step ::
  "ToolDefinition \<Rightarrow> 'pc Plugin \<times> DeclareToolsResponse \<Rightarrow> 'pc Plugin \<times> DeclareToolsResponse"
where
  "declare_step toolDef st =
     (let p = fst st; resp = snd st;
          exists = (map_of (tools p) (Name toolDef) \<noteq> None);
          tool = mk_tool toolDef;
          p1 = emit (AddTool tool (Name toolDef)) p;
          p2 = p1\<lparr>tools := AList.update (Name toolDef) tool (tools p1)\<rparr>;
          resp' = (if exists then resp\<lparr>Updated := Updated resp @ [Name toolDef]\<rparr>
                   else resp\<lparr>Registered := Registered resp @ [Name toolDef]\<rparr>)
      in (p2, resp'))"

definition declare_one ::
  "env \<Rightarrow> ToolDefinition \<Rightarrow> 'pc Plugin \<times> DeclareToolsResponse
     \<Rightarrow> ('pc Plugin \<times> DeclareToolsResponse) option"
where
  "declare_one env toolDef st =
     (if mcp_AddTool env (mk_tool toolDef) then Some (declare_step toolDef st) else None)"

text \<open>
  The loop. Its result is the plugin state it leaves and the response, or no response
  when an iteration panicked: the entries before that one are registered, that one
  and the entries after it are not.
\<close>

fun declare_loop ::
  "env \<Rightarrow> ToolDefinition list \<Rightarrow> 'pc Plugin \<times> DeclareToolsResponse
     \<Rightarrow> 'pc Plugin \<times> DeclareToolsResponse option"
where
  "declare_loop env [] st = (fst st, Some (snd st))"
| "declare_loop env (toolDef # rest) st =
     (case declare_one env toolDef st of
        None \<Rightarrow> (fst st, None)
      | Some st' \<Rightarrow> declare_loop env rest st')"

text \<open>
  \<^verbatim>\<open>DeclareTools\<close> fills the response it is given and returns an error value, which is
  always nil. After a panic in the loop there is neither (\<^term>\<open>None\<close>), and
  \<^verbatim>\<open>notifyToolsChanged\<close> is not reached.
\<close>

definition DeclareTools ::
  "env \<Rightarrow> DeclareToolsRequest \<Rightarrow> 'pc Plugin
     \<Rightarrow> 'pc Plugin \<times> (DeclareToolsResponse \<times> error option) option"
where
  "DeclareTools env req p =
     (let st = declare_loop env (Tools req) (p, \<lparr>Registered = [], Updated = []\<rparr>);
          p1 = fst st
      in case snd st of
           None \<Rightarrow> (p1, None)
         | Some resp \<Rightarrow>
             (let p2 = (if NotifyClientsOnChange (cfg p1)
                           \<and> length (Registered resp) + length (Updated resp) > 0
                        then notifyToolsChanged p1 else p1)
              in (p2, Some (resp, None))))"

fun remove_loop :: "string list \<Rightarrow> 'pc Plugin \<Rightarrow> 'pc Plugin" where
  "remove_loop [] p = p"
| "remove_loop (name # rest) p = remove_loop rest (p\<lparr>tools := AList.delete name (tools p)\<rparr>)"

definition RemoveTools :: "string list \<Rightarrow> 'pc Plugin \<Rightarrow> 'pc Plugin \<times> error option" where
  "RemoveTools names p =
     (let p1 = remove_loop names p;
          p2 = (if NotifyClientsOnChange (cfg p1) \<and> length names > 0
                then notifyToolsChanged p1 else p1)
      in (p2, None))"

text \<open>
  A sequence of \<^verbatim>\<open>DeclareTools\<close> calls, one after the other as the mutex orders them:
  the plugin state after each call, with the response of that call if it gave one.
\<close>

fun declare_seq ::
  "env \<Rightarrow> DeclareToolsRequest list \<Rightarrow> 'pc Plugin
     \<Rightarrow> ('pc Plugin \<times> DeclareToolsResponse option) list"
where
  "declare_seq env [] p = []"
| "declare_seq env (req # reqs) p =
     (let r = DeclareTools env req p
      in (fst r, map_option fst (snd r)) # declare_seq env reqs (fst r))"

definition req_names :: "DeclareToolsRequest \<Rightarrow> string list" where
  "req_names req = map Name (Tools req)"

text \<open>The plugin state in which the call number \<^term>\<open>k\<close> of such a sequence starts.\<close>

definition before_call ::
  "env \<Rightarrow> DeclareToolsRequest list \<Rightarrow> 'pc Plugin \<Rightarrow> nat \<Rightarrow> 'pc Plugin"
where
  "before_call env reqs p k = (if k = 0 then p else fst (declare_seq env reqs p ! (k - 1)))"

text \<open>
  The calls in which \<^verbatim>\<open>mcp.AddTool\<close> accepts every tool of the request, so that no
  iteration panics.
\<close>

definition accepts_all :: "env \<Rightarrow> DeclareToolsRequest \<Rightarrow> bool" where
  "accepts_all env req \<longleftrightarrow> list_all (\<lambda>toolDef. mcp_AddTool env (mk_tool toolDef)) (Tools req)"

section \<open>The dispatcher (\<^verbatim>\<open>handler.go\<close>)\<close>

text \<open>
  The \<^verbatim>\<open>headers\<close> map that \<^verbatim>\<open>sendEvent\<close> builds from the event name, the session id
  and the session found in the registry.
\<close>

definition sendEvent_headers ::
  "SessionInfo option \<Rightarrow> string \<Rightarrow> string \<Rightarrow> (string \<times> string list) list"
where
  "sendEvent_headers sessionInfo sessionID eventName =
     (let headers =
            [(''X-MCP-Event'', [eventName]),
             (''X-Session-ID'', [sessionID]),
             (''Content-Type'', [''application/json'']),
             (''X-MCP-Method'', [''POST''])]
      in case sessionInfo of
           None \<Rightarrow> headers
         | Some info \<Rightarrow>
             if Token info \<noteq> '''' then AList.update ''X-Client-Token'' [Token info] headers
             else headers)"

text \<open>
  The envelope \<^verbatim>\<open>sendEvent\<close> hands to the pool. The source builds it from the
  serialised payload alone: \<^verbatim>\<open>payload.Payload{Context: payloadJSON, Body: payloadJSON}\<close>.
\<close>

definition workerPayload :: "string \<Rightarrow> Payload" where
  "workerPayload payloadJSON = \<lparr>Context = payloadJSON, Body = payloadJSON\<rparr>"

definition op_send_event :: string where
  "op_send_event = ''mcp_send_event''"

text \<open>
  \<^verbatim>\<open>sendEvent\<close> returns \<^verbatim>\<open>([]byte, error)\<close>: \<^term>\<open>Inl e\<close> is a nil body with the error
  \<^term>\<open>e\<close>, \<^term>\<open>Inr b\<close> is the body \<^term>\<open>b\<close> with a nil error. The result is
  \<^term>\<open>None\<close> when the receive on the response channel never comes back. The loop
  over the channel returns in its first iteration, so only the first receive counts.
\<close>

definition sendEvent ::
  "env \<Rightarrow> ctx \<Rightarrow> string \<Rightarrow> string \<Rightarrow> event_payload \<Rightarrow> 'pc Plugin
     \<Rightarrow> ('pc Plugin \<times> (error + byte_slice)) option"
where
  "sendEvent env c sessionID eventName pl p =
     (case json_Marshal env pl of
        Inl err \<Rightarrow>
          Some (p, Inl (E op_send_event (Wrapf ''failed to marshal payload'' (Ext err))))
      | Inr payloadJSON \<Rightarrow>
          (let sessionInfo = sessions p sessionID;
               headers = sendEvent_headers sessionInfo sessionID eventName;
               p1 = emit (PoolExec c (workerPayload payloadJSON)) p
           in case pool_Exec env c (workerPayload payloadJSON) of
                Inl err \<Rightarrow>
                  Some (p1, Inl (E op_send_event (Wrapf ''worker execution failed'' (Ext err))))
              | Inr responseCh \<Rightarrow>
                  (case responseCh of
                     Msg response _ \<Rightarrow>
                       (case resp_Error response of
                          Some err \<Rightarrow> Some (p1, Inl (E op_send_event (Ext err)))
                        | None \<Rightarrow> Some (p1, Inr (resp_Body response)))
                   | Closed \<Rightarrow>
                       Some (p1, Inl (E op_send_event (Str ''no response from worker'')))
                   | Blocked \<Rightarrow> None)))"

definition op_authenticate_session :: string where
  "op_authenticate_session = ''mcp_authenticate_session''"

definition authenticateSession ::
  "env \<Rightarrow> ctx \<Rightarrow> string \<Rightarrow> (string \<times> string) list \<Rightarrow> 'pc Plugin
     \<Rightarrow> ('pc Plugin \<times> (error + string)) option"
where
  "authenticateSession env c sessionID credentials p =
     (if \<not> Enabled (cfg p) then Some (p, Inr '''')
      else
        (let payload = \<lparr>ccp_SessionID = sessionID, Credentials = credentials\<rparr>
         in case sendEvent env c sessionID EventClientConnected (ClientConnected payload) p of
              None \<Rightarrow> None
            | Some (p1, Inl err) \<Rightarrow> Some (p1, Inl (E op_authenticate_session err))
            | Some (p1, Inr phpResp) \<Rightarrow>
                (case Unmarshal_ClientConnectedResponse env phpResp of
                   Inl err \<Rightarrow>
                     Some (p1, Inl (E op_authenticate_session
                                      (Wrapf ''invalid worker response'' (Ext err))))
                 | Inr authResp \<Rightarrow>
                     if \<not> Allowed authResp
                     then Some (p1, Inl (E op_authenticate_session
                                           (Str (''authentication failed: '' @ Message authResp))))
                     else Some (p1, Inr (ccr_Token authResp)))))"

section \<open>The tool handler (\<^verbatim>\<open>rpc.go\<close>)\<close>

definition updateSessionActivity :: "env \<Rightarrow> string \<Rightarrow> 'pc Plugin \<Rightarrow> 'pc Plugin" where
  "updateSessionActivity env sessionID p =
     (case sessions p sessionID of
        Some info \<Rightarrow>
          p\<lparr>sessions := (sessions p)(sessionID \<mapsto> info\<lparr>LastActivity := time_Now env\<rparr>)\<rparr>
      | None \<Rightarrow> p)"

definition request_sessionID :: "env \<Rightarrow> CallToolRequest \<Rightarrow> string" where
  "request_sessionID env request =
     (case Params request of
        None \<Rightarrow> ''unknown''
      | Some params \<Rightarrow>
          (case Meta params of
             None \<Rightarrow> ''unknown''
           | Some meta \<Rightarrow>
               (case map_of meta ''sessionId'' of
                  None \<Rightarrow> ''unknown''
                | Some sid \<Rightarrow> Sprintf_v env sid)))"

text \<open>The \<^verbatim>\<open>switch c.Type\<close> that converts one content item of the worker.\<close>

definition convert_content :: "MCPContent \<Rightarrow> mcp_content" where
  "convert_content c =
     (if Type c = ''text'' then TextContent (Text c)
      else if Type c = ''image'' then ImageContent (Data c) (MimeType c)
      else if Type c = ''resource'' then TextContent (Text c)
      else TextContent (Text c))"

text \<open>
  The closure returned by \<^verbatim>\<open>createToolHandler(toolName)\<close>, applied to a context, a
  request and the arguments. Of its three results the middle one is always nil and
  is left out.
\<close>

definition createToolHandler ::
  "env \<Rightarrow> string \<Rightarrow> ctx \<Rightarrow> CallToolRequest \<Rightarrow> (string \<times> json) list option \<Rightarrow> 'pc Plugin
     \<Rightarrow> ('pc Plugin \<times> (error + CallToolResult)) option"
where
  "createToolHandler env toolName c request args p =
     (let sessionID = request_sessionID env request;
          p1 = updateSessionActivity env sessionID p
      in case json_Marshal_args env args of
           Inl err \<Rightarrow> Some (p1, Inl (Wrapf ''failed to marshal arguments'' (Ext err)))
         | Inr argsJSON \<Rightarrow>
             (let payload =
                    \<lparr>ctp_SessionID = sessionID, ToolName = toolName, Arguments = argsJSON\<rparr>
              in case sendEvent env c sessionID EventCallTool (CallTool payload) p1 of
                   None \<Rightarrow> None
                 | Some (p2, Inl err) \<Rightarrow> Some (p2, Inl (Wrapf ''tool execution failed'' err))
                 | Some (p2, Inr phpResp) \<Rightarrow>
                     (case Unmarshal_CallToolResponse env phpResp of
                        Inl err \<Rightarrow>
                          Some (p2, Inl (Wrapf ''invalid worker response'' (Ext err)))
                      | Inr result \<Rightarrow>
                          Some (p2, Inr \<lparr>res_Content = map convert_content (Content result),
                                         res_IsError = IsError result\<rparr>))))"

section \<open>The transports (\<^verbatim>\<open>transport.go\<close>)\<close>

definition trackSession ::
  "env \<Rightarrow> string \<Rightarrow> string \<Rightarrow> string \<Rightarrow> (string \<times> json) list option \<Rightarrow> 'pc Plugin
     \<Rightarrow> 'pc Plugin"
where
  "trackSession env sessionID token transport metadata p =
     (let info = \<lparr>ID = sessionID, Token = token, ConnectedAt = time_Now env,
                  LastActivity = time_Now env, si_Transport = transport,
                  Metadata = metadata\<rparr>
      in p\<lparr>sessions := (sessions p)(sessionID \<mapsto> info)\<rparr>)"

definition removeSession :: "string \<Rightarrow> 'pc Plugin \<Rightarrow> 'pc Plugin" where
  "removeSession sessionID p = p\<lparr>sessions := (sessions p)(sessionID := None)\<rparr>"

text \<open>What the SSE handler reads from the incoming \<^verbatim>\<open>*http.Request\<close>.\<close>

record HttpRequest =
  Authorization :: string
  RemoteAddr :: string
  UserAgent :: string
  req_Context :: ctx

definition TrimPrefix :: "string \<Rightarrow> string \<Rightarrow> string" where
  "TrimPrefix s pre = (if take (length pre) s = pre then drop (length pre) s else s)"

definition sse_credentials :: "HttpRequest \<Rightarrow> (string \<times> string) list" where
  "sse_credentials r =
     (let credentials = [];
          credentials = (if Authorization r \<noteq> ''''
                         then AList.update ''token'' (TrimPrefix (Authorization r) ''Bearer '')
                                credentials
                         else credentials);
          credentials = AList.update ''ip'' (RemoteAddr r) credentials;
          credentials = AList.update ''user_agent'' (UserAgent r) credentials
      in credentials)"

text \<open>
  The first half of the handler of \<^verbatim>\<open>serveSSE\<close>, for the connection that was given
  the session id \<^term>\<open>sessionID\<close>: authentication, then either the refusal (the
  handler writes the 401 response and returns, result \<^term>\<open>False\<close>) or
  \<^verbatim>\<open>trackSession\<close> (result \<^term>\<open>True\<close>).
\<close>

definition sse_accept ::
  "env \<Rightarrow> string \<Rightarrow> HttpRequest \<Rightarrow> 'pc Plugin \<Rightarrow> ('pc Plugin \<times> bool) option"
where
  "sse_accept env sessionID r p =
     (let credentials = sse_credentials r;
          auth = (if Enabled (cfg p)
                  then authenticateSession env (req_Context r) sessionID credentials p
                  else Some (p, Inr ''''))
      in case auth of
           None \<Rightarrow> None
         | Some (p1, Inl err) \<Rightarrow>
             Some (emit (HttpError ''Authentication failed'' 401) p1, False)
         | Some (p1, Inr sessionToken) \<Rightarrow>
             (let credentialsMap = map (\<lambda>kv. (fst kv, JStr (snd kv))) credentials
              in Some (trackSession env sessionID sessionToken ''sse'' (Some credentialsMap) p1,
                       True)))"

text \<open>
  The whole handler: after \<^verbatim>\<open>trackSession\<close> it connects the SDK server to the
  transport, through which the tool calls of that client arrive, and the deferred
  \<^verbatim>\<open>removeSession\<close> runs when it returns.
\<close>

definition sse_handler ::
  "env \<Rightarrow> string \<Rightarrow> HttpRequest \<Rightarrow> 'pc Plugin \<Rightarrow> 'pc Plugin option"
where
  "sse_handler env sessionID r p =
     (case sse_accept env sessionID r p of
        None \<Rightarrow> None
      | Some (p1, False) \<Rightarrow> Some p1
      | Some (p2, True) \<Rightarrow>
          (let p3 = emit (Connect sessionID) p2;
               p4 = (case mcpServer_Connect env sessionID of
                       Some err \<Rightarrow> emit (HttpError ''Failed to establish SSE connection'' 500) p3
                     | None \<Rightarrow> p3)
           in Some (removeSession sessionID p4)))"

text \<open>
  The guard of \<^verbatim>\<open>serveStdio\<close> in front of its call of \<^verbatim>\<open>authenticateSession\<close>.
\<close>

definition stdio_authenticates :: "'pc Config \<Rightarrow> bool" where
  "stdio_authenticates c \<longleftrightarrow> Enabled c \<and> \<not> SkipForStdio c"

section \<open>Configuration defaults (\<^verbatim>\<open>config.go\<close>)\<close>

definition op_config_validate :: string where
  "op_config_validate = ''mcp_config_validate''"

definition Validate :: "'pc Config \<Rightarrow> error option" where
  "Validate c =
     (if Transport c \<noteq> ''sse'' \<and> Transport c \<noteq> ''stdio''
      then Some (E op_config_validate (Str (''transport must be 'sse' or 'stdio'' @ [CHR 0x27])))
      else if Transport c = ''sse'' \<and> Address c = ''''
      then Some (E op_config_validate (Str ''address is required for SSE transport''))
      else if MaxConnections c < 1
      then Some (E op_config_validate (Str ''max_connections must be at least 1''))
      else if ReadTimeout c < Second
      then Some (E op_config_validate (Str ''read_timeout must be at least 1 second''))
      else if WriteTimeout c < Second
      then Some (E op_config_validate (Str ''write_timeout must be at least 1 second''))
      else if PingInterval c < Second
      then Some (E op_config_validate (Str ''ping_interval must be at least 1 second''))
      else None)"

text \<open>
  \<^verbatim>\<open>InitDefaults\<close> changes the configuration in place and returns the verdict of
  \<^verbatim>\<open>Validate\<close>; the model returns both. The pool library's zero \<^verbatim>\<open>pool.Config{}\<close> and
  its own \<^verbatim>\<open>InitDefaults\<close> are the parameters \<^term>\<open>pool_zero\<close> and
  \<^term>\<open>pool_InitDefaults\<close>.
\<close>

definition InitDefaults ::
  "'pc \<Rightarrow> ('pc \<Rightarrow> 'pc) \<Rightarrow> 'pc Config \<Rightarrow> 'pc Config \<times> error option"
where
  "InitDefaults pool_zero pool_InitDefaults c0 =
     (let c = (if Transport c0 = '''' then c0\<lparr>Transport := ''sse''\<rparr> else c0);
          c = (if Address c = '''' then c\<lparr>Address := ''127.0.0.1:9333''\<rparr> else c);
          c = (if Pool c = None then c\<lparr>Pool := Some pool_zero\<rparr> else c);
          c = c\<lparr>Pool := map_option pool_InitDefaults (Pool c)\<rparr>;
          c = (if MaxConnections c = 0 then c\<lparr>MaxConnections := 100\<rparr> else c);
          c = (if ReadTimeout c = 0 then c\<lparr>ReadTimeout := 60 * Second\<rparr> else c);
          c = (if WriteTimeout c = 0 then c\<lparr>WriteTimeout := 10 * Second\<rparr> else c);
          c = (if PingInterval c = 0 then c\<lparr>PingInterval := 30 * Second\<rparr> else c);
          c = c\<lparr>NotifyClientsOnChange := True\<rparr>;
          c = c\<lparr>SkipForStdio := True\<rparr>
      in (c, Validate c))"

section \<open>Concrete inputs\<close>

text \<open>
  A configuration as \<^verbatim>\<open>InitDefaults\<close> leaves it, with authentication switched on, and
  a freshly initialised plugin: \<^verbatim>\<open>Init\<close> creates both registries empty.
\<close>

definition example_cfg :: "unit Config" where
  "example_cfg =
     \<lparr>Transport = ''sse'', Address = ''127.0.0.1:9333'', Pool = Some (),
      MaxConnections = 100, ReadTimeout = 60 * Second, WriteTimeout = 10 * Second,
      PingInterval = 30 * Second, NotifyClientsOnChange = True, Enabled = True,
      SkipForStdio = True, Debug = False\<rparr>"

definition example_plugin :: "unit Plugin" where
  "example_plugin = \<lparr>cfg = example_cfg, tools = [], sessions = Map.empty, trace = []\<rparr>"

text \<open>
  Tool definitions: two for the name \<^verbatim>\<open>t1\<close> with an object schema, and one whose
  schema has no type, which the SDK refuses.
\<close>

definition object_schema :: json where
  "object_schema = JObj [(''type'', JStr ''object'')]"

definition t1_first :: ToolDefinition where
  "t1_first = \<lparr>Name = ''t1'', Description = ''first'', InputSchema = object_schema\<rparr>"

definition t1_second :: ToolDefinition where
  "t1_second = \<lparr>Name = ''t1'', Description = ''second'', InputSchema = object_schema\<rparr>"

definition t1_untyped :: ToolDefinition where
  "t1_untyped = \<lparr>Name = ''t1'', Description = ''untyped'', InputSchema = JObj []\<rparr>"

definition example_reqs :: "DeclareToolsRequest list" where
  "example_reqs = [\<lparr>Tools = [t1_first]\<rparr>, \<lparr>Tools = [t1_second]\<rparr>]"

definition example_req :: DeclareToolsRequest where
  "example_req = \<lparr>Tools = [t1_first, t1_second]\<rparr>"

text \<open>An \<^verbatim>\<open>AddTool\<close> that panics unless the input schema has the type \<^verbatim>\<open>object\<close>.\<close>

definition example_AddTool :: "Tool \<Rightarrow> bool" where
  "example_AddTool tool =
     (case tool_InputSchema tool of
        JObj kvs \<Rightarrow> map_of kvs ''type'' = Some (JStr ''object'')
      | _ \<Rightarrow> False)"

text \<open>
  A pool that looks at the context first and rejects the call with the context's
  error when it is done; otherwise one worker answers with \<^term>\<open>response\<close> and the
  channel is closed.
\<close>

definition example_pool :: "Response \<Rightarrow> ctx \<Rightarrow> Payload \<Rightarrow> ext_error + resp_chan" where
  "example_pool response c pl =
     (case ctx_Err c of
        Some err \<Rightarrow> Inl err
      | None \<Rightarrow> Inr (Msg response Closed))"

text \<open>
  Decoders that know four bodies: a failed tool call with a text item and a resource
  item, one with an image item as well, a denied and a granted authentication.
  Everything else is malformed.
\<close>

definition example_tool_response :: CallToolResponse where
  "example_tool_response =
     \<lparr>Content =
        [\<lparr>Type = ''text'', Text = ''boom'', Data = '''', URI = '''', MimeType = ''''\<rparr>,
         \<lparr>Type = ''resource'', Text = ''see file'', Data = '''', URI = ''file:///x'',
          MimeType = ''text/plain''\<rparr>],
      IsError = True\<rparr>"

definition example_image_response :: CallToolResponse where
  "example_image_response =
     \<lparr>Content =
        [\<lparr>Type = ''text'', Text = ''boom'', Data = '''', URI = '''', MimeType = ''''\<rparr>,
         \<lparr>Type = ''image'', Text = ''a picture'', Data = ''aGk='', URI = '''',
          MimeType = ''image/png''\<rparr>,
         \<lparr>Type = ''resource'', Text = ''see file'', Data = '''', URI = ''file:///x'',
          MimeType = ''text/plain''\<rparr>],
      IsError = True\<rparr>"

definition example_Unmarshal_tool :: "byte_slice \<Rightarrow> ext_error + CallToolResponse" where
  "example_Unmarshal_tool b =
     (if b = Some ''tool-failed'' then Inr example_tool_response
      else if b = Some ''image-failed'' then Inr example_image_response
      else Inl (JsonError ''unexpected end of JSON input''))"

definition example_Unmarshal_auth :: "byte_slice \<Rightarrow> ext_error + ClientConnectedResponse" where
  "example_Unmarshal_auth b =
     (if b = Some ''deny'' then Inr \<lparr>Allowed = False, ccr_Token = '''', Message = ''no''\<rparr>
      else if b = Some ''allow'' then Inr \<lparr>Allowed = True, ccr_Token = ''tok'', Message = ''''\<rparr>
      else Inl (JsonError ''unexpected end of JSON input''))"

definition example_Sprintf_v :: "json \<Rightarrow> string" where
  "example_Sprintf_v j = (case j of JStr s \<Rightarrow> s | _ \<Rightarrow> ''?'')"

definition example_env :: "Response \<Rightarrow> env" where
  "example_env response =
     \<lparr>json_Marshal = (\<lambda>pl. Inr ''{}''),
      json_Marshal_args = (\<lambda>args. Inr ''{}''),
      Unmarshal_CallToolResponse = example_Unmarshal_tool,
      Unmarshal_ClientConnectedResponse = example_Unmarshal_auth,
      Sprintf_v = example_Sprintf_v,
      pool_Exec = example_pool response,
      mcpServer_Connect = (\<lambda>sessionID. None),
      mcp_AddTool = example_AddTool,
      time_Now = 1\<rparr>"

definition body_response :: "byte_slice \<Rightarrow> Response" where
  "body_response b = \<lparr>resp_Error = None, resp_Body = b\<rparr>"

definition example_call :: event_payload where
  "example_call = CallTool \<lparr>ctp_SessionID = ''s1'', ToolName = ''t1'', Arguments = ''{}''\<rparr>"

definition example_session :: SessionInfo where
  "example_session =
     \<lparr>ID = ''s1'', Token = ''secret'', ConnectedAt = 0, LastActivity = 0,
      si_Transport = ''sse'', Metadata = None\<rparr>"

definition plugin_with_session :: "unit Plugin" where
  "plugin_with_session = example_plugin\<lparr>sessions := [''s1'' \<mapsto> example_session]\<rparr>"

definition example_request :: CallToolRequest where
  "example_request = \<lparr>Params = Some \<lparr>Meta = Some [(''sessionId'', JStr ''s1'')]\<rparr>\<rparr>"

definition example_http_request :: HttpRequest where
  "example_http_request =
     \<lparr>Authorization = ''Bearer abc'', RemoteAddr = ''10.0.0.1:5555'', UserAgent = ''curl'',
      req_Context = CtxActive\<rparr>"

section \<open>Properties of the tool registry\<close>

lemma emit_fields [simp]:
  "tools (emit ev p) = tools p" "cfg (emit ev p) = cfg p" "sessions (emit ev p) = sessions p"
  "trace (emit ev p) = trace p @ [ev]"
  by (simp_all add: emit_def)

lemma notifyToolsChanged_fields [simp]:
  "tools (notifyToolsChanged p) = tools p" "cfg (notifyToolsChanged p) = cfg p"
  "sessions (notifyToolsChanged p) = sessions p"
  "trace (notifyToolsChanged p) = trace p @ [NotifyToolsChanged]"
  by (simp_all add: notifyToolsChanged_def)

text \<open>An iteration in which \<^verbatim>\<open>mcp.AddTool\<close> returns.\<close>

lemma declare_step_tools:
  "tools (fst (declare_step d st)) =
     AList.update (Name d)
       \<lparr>tool_Name = Name d, tool_Description = Description d, tool_InputSchema = InputSchema d\<rparr>
       (tools (fst st))"
  by (simp add: declare_step_def mk_tool_def Let_def)

lemma declare_step_Registered:
  "Registered (snd (declare_step d st)) =
     (if map_of (tools (fst st)) (Name d) = None then Registered (snd st) @ [Name d]
      else Registered (snd st))"
  by (simp add: declare_step_def Let_def)

lemma declare_step_Updated:
  "Updated (snd (declare_step d st)) =
     (if map_of (tools (fst st)) (Name d) = None then Updated (snd st)
      else Updated (snd st) @ [Name d])"
  by (simp add: declare_step_def Let_def)

text \<open>A run of iterations in which \<^verbatim>\<open>mcp.AddTool\<close> returns every time.\<close>

lemma steps_distinct:
  "distinct (map fst (tools (fst st))) \<Longrightarrow>
     distinct (map fst (tools (fst (fold declare_step ds st))))"
  by (induction ds arbitrary: st) (simp_all add: declare_step_tools distinct_update)

lemma steps_lookup:
  "map_of (tools (fst (fold declare_step ds st))) n =
     (case filter (\<lambda>d. Name d = n) ds of
        [] \<Rightarrow> map_of (tools (fst st)) n
      | d # r \<Rightarrow>
          Some \<lparr>tool_Name = n, tool_Description = Description (last (d # r)),
                tool_InputSchema = InputSchema (last (d # r))\<rparr>)"
proof (induction ds arbitrary: st)
  case Nil
  show ?case by simp
next
  case (Cons d ds)
  show ?case
    by (simp add: Cons.IH declare_step_tools update_conv' split: list.splits)
qed

lemma steps_Registered:
  "filter (\<lambda>x. x = n) (Registered (snd (fold declare_step ds st))) =
     filter (\<lambda>x. x = n) (Registered (snd st)) @
     (if n \<in> Name ` set ds \<and> map_of (tools (fst st)) n = None then [n] else [])"
proof (induction ds arbitrary: st)
  case Nil
  show ?case by simp
next
  case (Cons d ds)
  show ?case
    by (auto simp add: Cons.IH declare_step_tools declare_step_Registered update_conv')
qed

lemma steps_Updated:
  "filter (\<lambda>x. x = n) (Updated (snd (fold declare_step ds st))) =
     filter (\<lambda>x. x = n) (Updated (snd st)) @
     replicate (length (filter (\<lambda>d. Name d = n) ds)
                 - (if map_of (tools (fst st)) n = None then 1 else 0)) n"
proof (induction ds arbitrary: st)
  case Nil
  show ?case by simp
next
  case (Cons d ds)
  show ?case
    by (auto simp add: Cons.IH declare_step_tools declare_step_Updated update_conv'
          replicate_append_same simp flip: replicate_Suc)
qed

lemma steps_present:
  "map_of (tools (fst (fold declare_step ds st))) n = None \<longleftrightarrow>
     n \<notin> Name ` set ds \<and> map_of (tools (fst st)) n = None"
proof -
  have "filter (\<lambda>d. Name d = n) ds = [] \<longleftrightarrow> n \<notin> Name ` set ds"
    by (auto simp: filter_empty_conv)
  then show ?thesis
    by (cases "filter (\<lambda>d. Name d = n) ds") (simp_all add: steps_lookup)
qed

text \<open>The loop with its panics.\<close>

lemma declare_loop_accepted:
  "list_all (\<lambda>d. mcp_AddTool env (mk_tool d)) ds \<Longrightarrow>
     declare_loop env ds st =
       (fst (fold declare_step ds st), Some (snd (fold declare_step ds st)))"
  by (induction ds arbitrary: st) (simp_all add: declare_one_def)

lemma declare_loop_refused:
  "\<not> list_all (\<lambda>d. mcp_AddTool env (mk_tool d)) ds \<Longrightarrow> snd (declare_loop env ds st) = None"
  by (induction ds arbitrary: st) (auto simp: declare_one_def)

lemma declare_loop_distinct:
  "distinct (map fst (tools (fst st))) \<Longrightarrow>
     distinct (map fst (tools (fst (declare_loop env ds st))))"
proof (induction ds arbitrary: st)
  case Nil
  then show ?case by simp
next
  case (Cons d ds)
  show ?case
  proof (cases "mcp_AddTool env (mk_tool d)")
    case True
    from Cons.prems have "distinct (map fst (tools (fst (declare_step d st))))"
      by (simp add: declare_step_tools distinct_update)
    with True Cons.IH show ?thesis by (simp add: declare_one_def)
  next
    case False
    with Cons.prems show ?thesis by (simp add: declare_one_def)
  qed
qed

lemma DeclareTools_distinct:
  "distinct (map fst (tools p)) \<Longrightarrow> distinct (map fst (tools (fst (DeclareTools env req p))))"
proof -
  assume d: "distinct (map fst (tools p))"
  let ?st = "declare_loop env (Tools req) (p, \<lparr>Registered = [], Updated = []\<rparr>)"
  from d have "distinct (map fst (tools (fst ?st)))"
    by (simp add: declare_loop_distinct)
  then show ?thesis
    by (cases "snd ?st") (simp_all add: DeclareTools_def Let_def)
qed

lemma DeclareTools_refused:
  "\<not> accepts_all env req \<Longrightarrow> snd (DeclareTools env req p) = None"
  by (simp add: DeclareTools_def Let_def accepts_all_def declare_loop_refused)

lemma DeclareTools_tools:
  "accepts_all env req \<Longrightarrow>
     tools (fst (DeclareTools env req p)) =
       tools (fst (fold declare_step (Tools req) (p, \<lparr>Registered = [], Updated = []\<rparr>)))"
  by (simp add: DeclareTools_def Let_def accepts_all_def declare_loop_accepted)

lemma DeclareTools_resp:
  "accepts_all env req \<Longrightarrow>
     snd (DeclareTools env req p) =
       Some (snd (fold declare_step (Tools req) (p, \<lparr>Registered = [], Updated = []\<rparr>)), None)"
  by (simp add: DeclareTools_def Let_def accepts_all_def declare_loop_accepted)

lemma DeclareTools_lookup_other:
  assumes "accepts_all env req" and "n \<notin> set (req_names req)"
  shows "map_of (tools (fst (DeclareTools env req p))) n = map_of (tools p) n"
proof -
  from assms(2) have "filter (\<lambda>d. Name d = n) (Tools req) = []"
    by (auto simp: req_names_def filter_empty_conv)
  with assms(1) show ?thesis
    by (simp add: DeclareTools_tools steps_lookup)
qed

lemma DeclareTools_lookup_named:
  assumes "accepts_all env req" and "n \<in> set (req_names req)"
  shows "map_of (tools (fst (DeclareTools env req p))) n =
           Some \<lparr>tool_Name = n,
                 tool_Description = Description (last (filter (\<lambda>d. Name d = n) (Tools req))),
                 tool_InputSchema = InputSchema (last (filter (\<lambda>d. Name d = n) (Tools req)))\<rparr>"
proof -
  from assms(2) have "filter (\<lambda>d. Name d = n) (Tools req) \<noteq> []"
    by (auto simp: req_names_def filter_empty_conv)
  with assms(1) show ?thesis
    by (simp add: DeclareTools_tools steps_lookup split: list.splits)
qed

lemma DeclareTools_stays:
  "accepts_all env req \<Longrightarrow> map_of (tools p) n \<noteq> None \<Longrightarrow>
     map_of (tools (fst (DeclareTools env req p))) n \<noteq> None"
  by (cases "n \<in> set (req_names req)")
     (simp_all add: DeclareTools_lookup_named DeclareTools_lookup_other)

lemma mem_filter_eq: "n \<in> set xs \<longleftrightarrow> filter (\<lambda>x. x = n) xs \<noteq> []"
  by (auto simp: filter_empty_conv)

lemma DeclareTools_Registered_mem:
  assumes "accepts_all env req"
  shows "\<exists>resp. snd (DeclareTools env req p) = Some (resp, None)
           \<and> (n \<in> set (Registered resp) \<longleftrightarrow>
                n \<in> set (req_names req) \<and> map_of (tools p) n = None)"
  using assms
  by (simp add: mem_filter_eq [of n "Registered _"] DeclareTools_resp steps_Registered
        req_names_def)

lemma DeclareTools_Updated_present:
  assumes "accepts_all env req" and "n \<in> set (req_names req)" and "map_of (tools p) n \<noteq> None"
  shows "\<exists>resp. snd (DeclareTools env req p) = Some (resp, None) \<and> n \<in> set (Updated resp)"
proof -
  from assms(2) have "filter (\<lambda>d. Name d = n) (Tools req) \<noteq> []"
    by (auto simp: req_names_def filter_empty_conv)
  then have "0 < length (filter (\<lambda>d. Name d = n) (Tools req))" by simp
  with assms(1,3) show ?thesis
    by (auto simp add: mem_filter_eq [of n "Updated _"] DeclareTools_resp steps_Updated)
qed

lemma declare_seq_length [simp]: "length (declare_seq env reqs p) = length reqs"
  by (induction reqs arbitrary: p) (simp_all add: Let_def)

lemma declare_seq_distinct:
  "distinct (map fst (tools p)) \<Longrightarrow> k < length reqs \<Longrightarrow>
     distinct (map fst (tools (fst (declare_seq env reqs p ! k))))"
proof (induction reqs arbitrary: p k)
  case Nil
  then show ?case by simp
next
  case (Cons r rs)
  then show ?case
    by (cases k) (simp_all add: Let_def DeclareTools_distinct)
qed

lemma before_call_distinct:
  "distinct (map fst (tools p)) \<Longrightarrow> k < length reqs \<Longrightarrow>
     distinct (map fst (tools (before_call env reqs p k)))"
  by (simp add: before_call_def declare_seq_distinct)

lemma declare_seq_nth:
  "k < length reqs \<Longrightarrow>
     declare_seq env reqs p ! k =
       (fst (DeclareTools env (reqs ! k) (before_call env reqs p k)),
        map_option fst (snd (DeclareTools env (reqs ! k) (before_call env reqs p k))))"
proof (induction reqs arbitrary: p k)
  case Nil
  then show ?case by simp
next
  case (Cons r rs)
  show ?case
  proof (cases k)
    case 0
    then show ?thesis by (simp add: Let_def before_call_def)
  next
    case (Suc k')
    with Cons.prems Cons.IH [of k' "fst (DeclareTools env r p)"] show ?thesis
      by (cases k') (simp_all add: Let_def before_call_def)
  qed
qed

lemma declare_seq_lookup:
  "list_all (accepts_all env) reqs \<Longrightarrow> k < length reqs \<Longrightarrow>
   n \<in> set (req_names (reqs ! k)) \<Longrightarrow>
     map_of (tools (fst (declare_seq env reqs p ! k))) n =
       Some \<lparr>tool_Name = n,
             tool_Description =
               Description (last (filter (\<lambda>d. Name d = n) (Tools (reqs ! k)))),
             tool_InputSchema =
               InputSchema (last (filter (\<lambda>d. Name d = n) (Tools (reqs ! k))))\<rparr>"
proof (induction reqs arbitrary: p k)
  case Nil
  then show ?case by simp
next
  case (Cons r rs)
  then show ?case
    by (cases k) (simp_all add: Let_def DeclareTools_lookup_named)
qed

lemma declare_seq_present:
  "list_all (accepts_all env) reqs \<Longrightarrow> map_of (tools p) n \<noteq> None \<Longrightarrow> k < length reqs \<Longrightarrow>
   n \<in> set (req_names (reqs ! k)) \<Longrightarrow>
     \<exists>resp. snd (declare_seq env reqs p ! k) = Some resp
       \<and> n \<in> set (Updated resp) \<and> n \<notin> set (Registered resp)"
proof (induction reqs arbitrary: p k)
  case Nil
  then show ?case by simp
next
  case (Cons r rs)
  from Cons.prems have acc: "accepts_all env r" and rest: "list_all (accepts_all env) rs"
    by simp_all
  show ?case
  proof (cases k)
    case 0
    from DeclareTools_Updated_present [OF acc, of n p] Cons.prems 0
    obtain resp where r: "snd (DeclareTools env r p) = Some (resp, None)"
      and u: "n \<in> set (Updated resp)" by auto
    from DeclareTools_Registered_mem [OF acc, of p n] r Cons.prems
    have "n \<notin> set (Registered resp)" by auto
    with 0 r u show ?thesis by (simp add: Let_def)
  next
    case (Suc k')
    from acc Cons.prems have "map_of (tools (fst (DeclareTools env r p))) n \<noteq> None"
      by (simp add: DeclareTools_stays)
    with Suc Cons.prems rest Cons.IH [of "fst (DeclareTools env r p)" k'] show ?thesis
      by (simp add: Let_def)
  qed
qed

lemma declare_seq_first:
  "list_all (accepts_all env) reqs \<Longrightarrow> map_of (tools p) n = None \<Longrightarrow> i < length reqs \<Longrightarrow>
   n \<in> set (req_names (reqs ! i)) \<Longrightarrow> \<forall>j<i. n \<notin> set (req_names (reqs ! j)) \<Longrightarrow>
     \<exists>resp. snd (declare_seq env reqs p ! i) = Some resp \<and> n \<in> set (Registered resp)"
proof (induction reqs arbitrary: p i)
  case Nil
  then show ?case by simp
next
  case (Cons r rs)
  from Cons.prems have acc: "accepts_all env r" and rest: "list_all (accepts_all env) rs"
    by simp_all
  show ?case
  proof (cases i)
    case 0
    from DeclareTools_Registered_mem [OF acc, of p n] Cons.prems 0
    obtain resp where "snd (DeclareTools env r p) = Some (resp, None)"
      and "n \<in> set (Registered resp)" by auto
    with 0 show ?thesis by (simp add: Let_def)
  next
    case (Suc i')
    with Cons.prems have notin: "n \<notin> set (req_names r)" by auto
    from Suc Cons.prems have later: "\<forall>j<i'. n \<notin> set (req_names (rs ! j))" by auto
    from acc notin Cons.prems(2) have "map_of (tools (fst (DeclareTools env r p))) n = None"
      by (simp add: DeclareTools_lookup_other)
    with Cons.IH [of "fst (DeclareTools env r p)" i'] Suc Cons.prems rest later show ?thesis
      by (simp add: Let_def)
  qed
qed

lemma declare_seq_later:
  "list_all (accepts_all env) reqs \<Longrightarrow> i < k \<Longrightarrow> k < length reqs \<Longrightarrow>
   n \<in> set (req_names (reqs ! i)) \<Longrightarrow> n \<in> set (req_names (reqs ! k)) \<Longrightarrow>
     \<exists>resp. snd (declare_seq env reqs p ! k) = Some resp
       \<and> n \<in> set (Updated resp) \<and> n \<notin> set (Registered resp)"
proof (induction reqs arbitrary: p i k)
  case Nil
  then show ?case by simp
next
  case (Cons r rs)
  from Cons.prems have acc: "accepts_all env r" and rest: "list_all (accepts_all env) rs"
    by simp_all
  from Cons.prems obtain k' where k: "k = Suc k'" by (cases k) auto
  show ?case
  proof (cases i)
    case 0
    with acc Cons.prems have "map_of (tools (fst (DeclareTools env r p))) n \<noteq> None"
      by (simp add: DeclareTools_lookup_named)
    with declare_seq_present [OF rest, of "fst (DeclareTools env r p)" n k'] k Cons.prems
    show ?thesis by (simp add: Let_def)
  next
    case (Suc i')
    with Cons.IH [OF rest, of i' k' "fst (DeclareTools env r p)"] k Cons.prems show ?thesis
      by (simp add: Let_def)
  qed
qed

text \<open>
  C1, as stated, fails: a \<^verbatim>\<open>DeclareTools\<close> call is left by the panic of \<^verbatim>\<open>mcp.AddTool\<close>
  when the SDK refuses a tool. The first call whose input contains \<^verbatim>\<open>t1\<close>, with a
  schema that has no type, reports nothing at all and registers nothing.
\<close>

theorem DeclareTools_refused_schema_counterexample:
  "map_of (tools example_plugin) ''t1'' = None
   \<and> ''t1'' \<in> set (req_names \<lparr>Tools = [t1_untyped]\<rparr>)
   \<and> declare_seq (example_env (body_response None)) [\<lparr>Tools = [t1_untyped]\<rparr>] example_plugin
       = [(example_plugin, None)]"
  by (simp add: example_plugin_def req_names_def t1_untyped_def DeclareTools_def declare_one_def
        mk_tool_def example_env_def example_AddTool_def Let_def)

text \<open>
  C1, amended. Take a sequence of \<^verbatim>\<open>DeclareTools\<close> calls in which \<^verbatim>\<open>mcp.AddTool\<close> accepts
  every declared tool, starting from a registry without the name \<^term>\<open>n\<close>. The
  first call whose input contains \<^term>\<open>n\<close> reports it in \<^verbatim>\<open>Registered\<close>; every later
  call whose input contains \<^term>\<open>n\<close> reports it in \<^verbatim>\<open>Updated\<close> and not in
  \<^verbatim>\<open>Registered\<close>; after each call that contains \<^term>\<open>n\<close> the registry maps \<^term>\<open>n\<close>
  to the tool with the name, the description and the input schema of the last
  definition of that name in the call. In every sequence, whether or not a call
  panics, the names in the registry are distinct after every call and after every
  single iteration of the loop inside every call.
\<close>

theorem DeclareTools_registered_then_updated:
  assumes "distinct (map fst (tools p))"
  shows "(list_all (accepts_all env) reqs \<and> map_of (tools p) n = None \<and> i < length reqs
          \<and> n \<in> set (req_names (reqs ! i)) \<and> (\<forall>j<i. n \<notin> set (req_names (reqs ! j))) \<longrightarrow>
            (\<exists>resp. snd (declare_seq env reqs p ! i) = Some resp \<and> n \<in> set (Registered resp))
          \<and> (\<forall>k. i < k \<and> k < length reqs \<and> n \<in> set (req_names (reqs ! k)) \<longrightarrow>
                (\<exists>resp. snd (declare_seq env reqs p ! k) = Some resp
                   \<and> n \<in> set (Updated resp) \<and> n \<notin> set (Registered resp)))
          \<and> (\<forall>k. k < length reqs \<and> n \<in> set (req_names (reqs ! k)) \<longrightarrow>
                map_of (tools (fst (declare_seq env reqs p ! k))) n =
                  Some \<lparr>tool_Name = n,
                        tool_Description =
                          Description (last (filter (\<lambda>d. Name d = n) (Tools (reqs ! k)))),
                        tool_InputSchema =
                          InputSchema (last (filter (\<lambda>d. Name d = n) (Tools (reqs ! k))))\<rparr>))
       \<and> (\<forall>k<length reqs. distinct (map fst (tools (fst (declare_seq env reqs p ! k)))))
       \<and> (\<forall>k<length reqs. \<forall>j\<le>length (Tools (reqs ! k)).
              distinct (map fst (tools (fst (declare_loop env (take j (Tools (reqs ! k)))
                (before_call env reqs p k, \<lparr>Registered = [], Updated = []\<rparr>))))))"
proof (intro conjI allI impI)
  assume a: "list_all (accepts_all env) reqs \<and> map_of (tools p) n = None \<and> i < length reqs
          \<and> n \<in> set (req_names (reqs ! i)) \<and> (\<forall>j<i. n \<notin> set (req_names (reqs ! j)))"
  then show "\<exists>resp. snd (declare_seq env reqs p ! i) = Some resp \<and> n \<in> set (Registered resp)"
    by (simp add: declare_seq_first)
  {
    fix k assume "i < k \<and> k < length reqs \<and> n \<in> set (req_names (reqs ! k))"
    with a show "\<exists>resp. snd (declare_seq env reqs p ! k) = Some resp
                   \<and> n \<in> set (Updated resp) \<and> n \<notin> set (Registered resp)"
      by (simp add: declare_seq_later [where i = i])
  }
  {
    fix k assume "k < length reqs \<and> n \<in> set (req_names (reqs ! k))"
    with a show "map_of (tools (fst (declare_seq env reqs p ! k))) n =
        Some \<lparr>tool_Name = n,
              tool_Description =
                Description (last (filter (\<lambda>d. Name d = n) (Tools (reqs ! k)))),
              tool_InputSchema =
                InputSchema (last (filter (\<lambda>d. Name d = n) (Tools (reqs ! k))))\<rparr>"
      by (simp add: declare_seq_lookup)
  }
next
  fix k assume "k < length reqs"
  with assms show "distinct (map fst (tools (fst (declare_seq env reqs p ! k))))"
    by (rule declare_seq_distinct)
next
  fix k j assume "k < length reqs"
  with assms have "distinct (map fst (tools (before_call env reqs p k)))"
    by (rule before_call_distinct)
  then show "distinct (map fst (tools (fst (declare_loop env (take j (Tools (reqs ! k)))
      (before_call env reqs p k, \<lparr>Registered = [], Updated = []\<rparr>)))))"
    by (simp add: declare_loop_distinct)
qed

theorem DeclareTools_registered_then_updated_witness:
  "distinct (map fst (tools example_plugin))
   \<and> list_all (accepts_all (example_env (body_response None))) example_reqs
   \<and> map_of (tools example_plugin) ''t1'' = None
   \<and> 0 < length example_reqs
   \<and> ''t1'' \<in> set (req_names (example_reqs ! 0))
   \<and> ''t1'' \<in> set (req_names (example_reqs ! 1))
   \<and> map_option Registered
        (snd (declare_seq (example_env (body_response None)) example_reqs example_plugin ! 0))
       = Some [''t1'']
   \<and> (\<exists>resp. snd (declare_seq (example_env (body_response None)) example_reqs
                    example_plugin ! 1) = Some resp
          \<and> ''t1'' \<in> set (Updated resp) \<and> ''t1'' \<notin> set (Registered resp))
   \<and> map_of (tools (fst (declare_seq (example_env (body_response None)) example_reqs
                           example_plugin ! 1))) ''t1''
       = Some \<lparr>tool_Name = ''t1'', tool_Description = ''second'',
               tool_InputSchema = JObj [(''type'', JStr ''object'')]\<rparr>
   \<and> distinct (map fst (tools (fst (declare_seq (example_env (body_response None))
                                      example_reqs example_plugin ! 1))))"
proof -
  let ?env = "example_env (body_response None)"
  have h1: "distinct (map fst (tools example_plugin))"
    by (simp add: example_plugin_def)
  have acc: "list_all (accepts_all ?env) example_reqs"
    by (simp add: example_reqs_def accepts_all_def mk_tool_def t1_first_def t1_second_def
          object_schema_def example_env_def example_AddTool_def)
  have h2: "map_of (tools example_plugin) ''t1'' = None"
    by (simp add: example_plugin_def)
  have h3: "0 < length example_reqs"
    by (simp add: example_reqs_def)
  have h4: "''t1'' \<in> set (req_names (example_reqs ! 0))"
    by (simp add: example_reqs_def req_names_def t1_first_def)
  have h5: "\<forall>j<0::nat. ''t1'' \<notin> set (req_names (example_reqs ! j))"
    by simp
  have k: "(0::nat) < 1 \<and> 1 < length example_reqs
           \<and> ''t1'' \<in> set (req_names (example_reqs ! 1))"
    by (simp add: example_reqs_def req_names_def t1_second_def)
  have l: "last (filter (\<lambda>d. Name d = ''t1'') (Tools (example_reqs ! 1))) = t1_second"
    by (simp add: example_reqs_def t1_second_def)
  have d: "Description t1_second = ''second''"
    "InputSchema t1_second = JObj [(''type'', JStr ''object'')]"
    by (simp_all add: t1_second_def object_schema_def)
  have first: "map_option Registered (snd (declare_seq ?env example_reqs example_plugin ! 0))
      = Some [''t1'']"
    by (simp add: example_reqs_def DeclareTools_def declare_one_def declare_step_def mk_tool_def
          t1_first_def t1_second_def object_schema_def example_env_def example_AddTool_def
          example_plugin_def Let_def)
  from DeclareTools_registered_then_updated [OF h1, of ?env example_reqs "''t1''" 0]
    acc h2 h3 h4 h5
  have concl:
    "(\<forall>k. 0 < k \<and> k < length example_reqs \<and> ''t1'' \<in> set (req_names (example_reqs ! k)) \<longrightarrow>
        (\<exists>resp. snd (declare_seq ?env example_reqs example_plugin ! k) = Some resp
           \<and> ''t1'' \<in> set (Updated resp) \<and> ''t1'' \<notin> set (Registered resp)))
     \<and> (\<forall>k. k < length example_reqs \<and> ''t1'' \<in> set (req_names (example_reqs ! k)) \<longrightarrow>
          map_of (tools (fst (declare_seq ?env example_reqs example_plugin ! k))) ''t1'' =
            Some \<lparr>tool_Name = ''t1'',
                  tool_Description =
                    Description (last (filter (\<lambda>d. Name d = ''t1'') (Tools (example_reqs ! k)))),
                  tool_InputSchema =
                    InputSchema (last (filter (\<lambda>d. Name d = ''t1'') (Tools (example_reqs ! k))))\<rparr>)
     \<and> (\<forall>k<length example_reqs.
          distinct (map fst (tools (fst (declare_seq ?env example_reqs example_plugin ! k)))))"
    by blast
  from concl k have upd: "\<exists>resp. snd (declare_seq ?env example_reqs example_plugin ! 1) = Some resp
           \<and> ''t1'' \<in> set (Updated resp) \<and> ''t1'' \<notin> set (Registered resp)"
    by blast
  from concl k l d
  have reg: "map_of (tools (fst (declare_seq ?env example_reqs example_plugin ! 1))) ''t1''
       = Some \<lparr>tool_Name = ''t1'', tool_Description = ''second'',
               tool_InputSchema = JObj [(''type'', JStr ''object'')]\<rparr>"
    by simp
  from concl k
  have dist: "distinct (map fst (tools (fst (declare_seq ?env example_reqs example_plugin ! 1))))"
    by blast
  from h1 acc h2 h3 h4 k first upd reg dist show ?thesis by blast
qed

text \<open>
  C8, as stated, fails for the same reason: with \<^verbatim>\<open>t1\<close> declared twice in one request
  and the second definition refused by the SDK, the call gives no response, and the
  registry is left with the first definition, not the last.
\<close>

theorem DeclareTools_duplicate_refused_counterexample:
  "map_of (tools example_plugin) ''t1'' = None
   \<and> req_names \<lparr>Tools = [t1_first, t1_untyped]\<rparr> = [''t1'', ''t1'']
   \<and> DeclareTools (example_env (body_response None)) \<lparr>Tools = [t1_first, t1_untyped]\<rparr>
       example_plugin
     = (example_plugin
          \<lparr>tools := [(''t1'', \<lparr>tool_Name = ''t1'', tool_Description = ''first'',
                               tool_InputSchema = JObj [(''type'', JStr ''object'')]\<rparr>)],
           trace := [AddTool \<lparr>tool_Name = ''t1'', tool_Description = ''first'',
                               tool_InputSchema = JObj [(''type'', JStr ''object'')]\<rparr> ''t1'']\<rparr>,
        None)"
  by (simp add: example_plugin_def req_names_def t1_first_def t1_untyped_def object_schema_def
        DeclareTools_def declare_one_def declare_step_def mk_tool_def example_env_def
        example_AddTool_def emit_def Let_def)

text \<open>
  C8, amended. When \<^verbatim>\<open>mcp.AddTool\<close> accepts every tool of the request and a name that
  the registry does not hold occurs in its \<^verbatim>\<open>Tools\<close> list, the call returns a response
  and a nil error; the response lists the name once in \<^verbatim>\<open>Registered\<close> and once in
  \<^verbatim>\<open>Updated\<close> for every further occurrence; the registry ends up with the tool that has
  the name, the description and the input schema of the last occurrence. Position by
  position: the iteration for an occurrence appends the name to \<^verbatim>\<open>Registered\<close> when no
  earlier entry of the list has that name, and to \<^verbatim>\<open>Updated\<close> otherwise.
\<close>

theorem DeclareTools_duplicate_names:
  assumes "accepts_all env req"
      and "map_of (tools p) n = None"
      and "n \<in> set (req_names req)"
  shows "\<exists>p' resp. DeclareTools env req p = (p', Some (resp, None))
       \<and> filter (\<lambda>x. x = n) (Registered resp) = [n]
       \<and> filter (\<lambda>x. x = n) (Updated resp) =
           replicate (length (filter (\<lambda>x. x = n) (req_names req)) - 1) n
       \<and> map_of (tools p') n =
           Some \<lparr>tool_Name = n,
                 tool_Description = Description (last (filter (\<lambda>d. Name d = n) (Tools req))),
                 tool_InputSchema = InputSchema (last (filter (\<lambda>d. Name d = n) (Tools req)))\<rparr>
       \<and> (\<forall>pre d post. Tools req = pre @ d # post \<and> Name d = n \<longrightarrow>
            (\<exists>p1 r1 p2. declare_loop env pre (p, \<lparr>Registered = [], Updated = []\<rparr>) = (p1, Some r1)
               \<and> declare_one env d (p1, r1) =
                   Some (p2, if n \<in> Name ` set pre then r1\<lparr>Updated := Updated r1 @ [n]\<rparr>
                             else r1\<lparr>Registered := Registered r1 @ [n]\<rparr>)))"
proof -
  let ?e = "\<lparr>Registered = [], Updated = []\<rparr>"
  let ?resp = "snd (fold declare_step (Tools req) (p, ?e))"
  let ?p' = "fst (DeclareTools env req p)"
  from assms(1) have run: "DeclareTools env req p = (?p', Some (?resp, None))"
    by (simp add: prod_eq_iff DeclareTools_resp)
  from assms(2,3) have reg: "filter (\<lambda>x. x = n) (Registered ?resp) = [n]"
    by (simp add: steps_Registered req_names_def)
  from assms(2) have upd: "filter (\<lambda>x. x = n) (Updated ?resp) =
      replicate (length (filter (\<lambda>x. x = n) (req_names req)) - 1) n"
    by (simp add: steps_Updated req_names_def o_def)
  from assms(1,3) have look: "map_of (tools ?p') n =
      Some \<lparr>tool_Name = n,
            tool_Description = Description (last (filter (\<lambda>d. Name d = n) (Tools req))),
            tool_InputSchema = InputSchema (last (filter (\<lambda>d. Name d = n) (Tools req)))\<rparr>"
    by (rule DeclareTools_lookup_named)
  have pos: "\<forall>pre d post. Tools req = pre @ d # post \<and> Name d = n \<longrightarrow>
      (\<exists>p1 r1 p2. declare_loop env pre (p, ?e) = (p1, Some r1)
         \<and> declare_one env d (p1, r1) =
             Some (p2, if n \<in> Name ` set pre then r1\<lparr>Updated := Updated r1 @ [n]\<rparr>
                       else r1\<lparr>Registered := Registered r1 @ [n]\<rparr>))"
  proof (intro allI impI)
    fix pre d post
    assume split: "Tools req = pre @ d # post \<and> Name d = n"
    let ?st = "fold declare_step pre (p, ?e)"
    from assms(1) split have ok_pre: "list_all (\<lambda>d. mcp_AddTool env (mk_tool d)) pre"
      and ok_d: "mcp_AddTool env (mk_tool d)"
      by (simp_all add: accepts_all_def)
    from ok_pre have loop: "declare_loop env pre (p, ?e) = (fst ?st, Some (snd ?st))"
      by (rule declare_loop_accepted)
    from assms(2) have "map_of (tools (fst ?st)) n = None \<longleftrightarrow> n \<notin> Name ` set pre"
      by (simp add: steps_present)
    with split ok_d have "declare_one env d (fst ?st, snd ?st) =
        Some (fst (declare_step d ?st),
              if n \<in> Name ` set pre then (snd ?st)\<lparr>Updated := Updated (snd ?st) @ [n]\<rparr>
              else (snd ?st)\<lparr>Registered := Registered (snd ?st) @ [n]\<rparr>)"
      by (auto simp add: declare_one_def declare_step_def Let_def)
    with loop show "\<exists>p1 r1 p2. declare_loop env pre (p, ?e) = (p1, Some r1)
         \<and> declare_one env d (p1, r1) =
             Some (p2, if n \<in> Name ` set pre then r1\<lparr>Updated := Updated r1 @ [n]\<rparr>
                       else r1\<lparr>Registered := Registered r1 @ [n]\<rparr>)"
      by blast
  qed
  from run reg upd look pos show ?thesis by blast
qed

theorem DeclareTools_duplicate_names_witness:
  "accepts_all (example_env (body_response None)) example_req
   \<and> map_of (tools example_plugin) ''t1'' = None
   \<and> req_names example_req = [''t1'', ''t1'']
   \<and> (\<exists>p' resp.
         DeclareTools (example_env (body_response None)) example_req example_plugin
           = (p', Some (resp, None))
       \<and> Registered resp = [''t1'']
       \<and> Updated resp = [''t1'']
       \<and> map_of (tools p') ''t1''
           = Some \<lparr>tool_Name = ''t1'', tool_Description = ''second'',
                   tool_InputSchema = JObj [(''type'', JStr ''object'')]\<rparr>)"
proof -
  let ?env = "example_env (body_response None)"
  have h1: "accepts_all ?env example_req"
    by (simp add: example_req_def accepts_all_def mk_tool_def t1_first_def t1_second_def
          object_schema_def example_env_def example_AddTool_def)
  have h2: "map_of (tools example_plugin) ''t1'' = None"
    by (simp add: example_plugin_def)
  have names: "req_names example_req = [''t1'', ''t1'']"
    by (simp add: example_req_def req_names_def t1_first_def t1_second_def)
  then have h3: "''t1'' \<in> set (req_names example_req)"
    by simp
  have l: "last (filter (\<lambda>d. Name d = ''t1'') (Tools example_req)) = t1_second"
    by (simp add: example_req_def t1_first_def t1_second_def)
  have d: "Description t1_second = ''second''"
    "InputSchema t1_second = JObj [(''type'', JStr ''object'')]"
    by (simp_all add: t1_second_def object_schema_def)
  from DeclareTools_duplicate_names [OF h1 h2 h3, unfolded l d]
  obtain p' resp where run: "DeclareTools ?env example_req example_plugin = (p', Some (resp, None))"
    and look: "map_of (tools p') ''t1''
        = Some \<lparr>tool_Name = ''t1'', tool_Description = ''second'',
                tool_InputSchema = JObj [(''type'', JStr ''object'')]\<rparr>"
    by blast
  have val: "map_option (\<lambda>r. (Registered (fst r), Updated (fst r)))
               (snd (DeclareTools ?env example_req example_plugin))
             = Some ([''t1''], [''t1''])"
    by (simp add: DeclareTools_def declare_one_def declare_step_def mk_tool_def Let_def
          example_req_def example_plugin_def t1_first_def t1_second_def object_schema_def
          example_env_def example_AddTool_def emit_def)
  with run have "Registered resp = [''t1'']" and "Updated resp = [''t1'']"
    by simp_all
  with h1 h2 names run look show ?thesis by blast
qed

lemma remove_loop_fields [simp]:
  "cfg (remove_loop names p) = cfg p" "sessions (remove_loop names p) = sessions p"
  "trace (remove_loop names p) = trace p"
  by (induction names arbitrary: p) simp_all

lemma remove_loop_lookup:
  "map_of (tools (remove_loop names p)) n = (if n \<in> set names then None else map_of (tools p) n)"
  by (induction names arbitrary: p) (simp_all add: delete_conv')

lemma remove_loop_absent:
  "\<forall>n\<in>set names. map_of (tools p) n = None \<Longrightarrow> tools (remove_loop names p) = tools p"
proof (induction names arbitrary: p)
  case Nil
  show ?case by simp
next
  case (Cons a names)
  from Cons.prems have "a \<notin> fst ` set (tools p)"
    by (simp add: map_of_eq_None_iff)
  then have "AList.delete a (tools p) = tools p" by simp
  with Cons show ?case by simp
qed

text \<open>
  C10. \<^verbatim>\<open>RemoveTools\<close> always returns a nil error. It calls \<^verbatim>\<open>notifyToolsChanged\<close> exactly
  when notification is enabled and the list of names is not empty, whatever the
  registry held: every listed name is absent afterwards, and when none of them was
  present the registry is unchanged and the notification is emitted all the same.
\<close>

theorem RemoveTools_notifies_on_nonempty_input:
  "snd (RemoveTools names p) = None
   \<and> trace (fst (RemoveTools names p)) =
       trace p @ (if NotifyClientsOnChange (cfg p) \<and> names \<noteq> [] then [NotifyToolsChanged] else [])
   \<and> (\<forall>n. map_of (tools (fst (RemoveTools names p))) n =
            (if n \<in> set names then None else map_of (tools p) n))
   \<and> ((\<forall>n\<in>set names. map_of (tools p) n = None) \<longrightarrow>
        tools (fst (RemoveTools names p)) = tools p)"
  by (simp add: RemoveTools_def Let_def remove_loop_lookup remove_loop_absent)

theorem RemoveTools_notifies_on_nonempty_input_witness:
  "NotifyClientsOnChange (cfg example_plugin)
   \<and> map_of (tools example_plugin) ''ghost'' = None
   \<and> snd (RemoveTools [''ghost''] example_plugin) = None
   \<and> trace (fst (RemoveTools [''ghost''] example_plugin)) = [NotifyToolsChanged]
   \<and> tools (fst (RemoveTools [''ghost''] example_plugin)) = tools example_plugin"
proof -
  have h: "\<forall>n\<in>set [''ghost'']. map_of (tools example_plugin) n = None"
    by (simp add: example_plugin_def)
  have n: "NotifyClientsOnChange (cfg example_plugin)"
    by (simp add: example_plugin_def example_cfg_def)
  have t: "trace example_plugin = []"
    by (simp add: example_plugin_def)
  from RemoveTools_notifies_on_nonempty_input [of "[''ghost'']" example_plugin] h n t
  show ?thesis by (simp add: example_plugin_def)
qed

section \<open>Properties of the configuration defaults\<close>

text \<open>
  C9. Whatever configuration \<^verbatim>\<open>InitDefaults\<close> is given, and whatever \<^verbatim>\<open>Validate\<close> says
  about it, afterwards \<^verbatim>\<open>Tools.NotifyClientsOnChange\<close> and \<^verbatim>\<open>Auth.SkipForStdio\<close> are both
  true, so the guard of \<^verbatim>\<open>serveStdio\<close> never lets the stdio transport authenticate.
\<close>

theorem InitDefaults_forces_notify_and_skip:
  "NotifyClientsOnChange (fst (InitDefaults pool_zero pool_InitDefaults c))
   \<and> SkipForStdio (fst (InitDefaults pool_zero pool_InitDefaults c))
   \<and> \<not> stdio_authenticates (fst (InitDefaults pool_zero pool_InitDefaults c))"
  by (simp add: InitDefaults_def Let_def stdio_authenticates_def)

section \<open>Properties of the dispatcher\<close>

text \<open>One lemma for each way through \<^verbatim>\<open>sendEvent\<close>.\<close>

lemma sendEvent_marshal_failed:
  "json_Marshal env pl = Inl err \<Longrightarrow>
     sendEvent env c sid ev pl p =
       Some (p, Inl (E op_send_event (Wrapf ''failed to marshal payload'' (Ext err))))"
  by (simp add: sendEvent_def)

lemma sendEvent_exec_failed:
  "json_Marshal env pl = Inr pj \<Longrightarrow> pool_Exec env c (workerPayload pj) = Inl err \<Longrightarrow>
     sendEvent env c sid ev pl p =
       Some (emit (PoolExec c (workerPayload pj)) p,
             Inl (E op_send_event (Wrapf ''worker execution failed'' (Ext err))))"
  by (simp add: sendEvent_def Let_def)

lemma sendEvent_closed:
  "json_Marshal env pl = Inr pj \<Longrightarrow> pool_Exec env c (workerPayload pj) = Inr Closed \<Longrightarrow>
     sendEvent env c sid ev pl p =
       Some (emit (PoolExec c (workerPayload pj)) p,
             Inl (E op_send_event (Str ''no response from worker'')))"
  by (simp add: sendEvent_def Let_def)

lemma sendEvent_blocked:
  "json_Marshal env pl = Inr pj \<Longrightarrow> pool_Exec env c (workerPayload pj) = Inr Blocked \<Longrightarrow>
     sendEvent env c sid ev pl p = None"
  by (simp add: sendEvent_def Let_def)

lemma sendEvent_response_error:
  "json_Marshal env pl = Inr pj \<Longrightarrow>
   pool_Exec env c (workerPayload pj) = Inr (Msg response rest) \<Longrightarrow>
   resp_Error response = Some err \<Longrightarrow>
     sendEvent env c sid ev pl p =
       Some (emit (PoolExec c (workerPayload pj)) p, Inl (E op_send_event (Ext err)))"
  by (simp add: sendEvent_def Let_def)

lemma sendEvent_response_body:
  "json_Marshal env pl = Inr pj \<Longrightarrow>
   pool_Exec env c (workerPayload pj) = Inr (Msg response rest) \<Longrightarrow>
   resp_Error response = None \<Longrightarrow>
     sendEvent env c sid ev pl p =
       Some (emit (PoolExec c (workerPayload pj)) p, Inr (resp_Body response))"
  by (simp add: sendEvent_def Let_def)

lemmas sendEvent_cases =
  sendEvent_marshal_failed sendEvent_exec_failed sendEvent_closed sendEvent_blocked
  sendEvent_response_error sendEvent_response_body

lemma sendEvent_outcome:
  obtains
    (marshal) err where "json_Marshal env pl = Inl err"
  | (exec) pj err where "json_Marshal env pl = Inr pj"
      "pool_Exec env c (workerPayload pj) = Inl err"
  | (closed) pj where "json_Marshal env pl = Inr pj"
      "pool_Exec env c (workerPayload pj) = Inr Closed"
  | (blocked) pj where "json_Marshal env pl = Inr pj"
      "pool_Exec env c (workerPayload pj) = Inr Blocked"
  | (error) pj response rest err where "json_Marshal env pl = Inr pj"
      "pool_Exec env c (workerPayload pj) = Inr (Msg response rest)"
      "resp_Error response = Some err"
  | (body) pj response rest where "json_Marshal env pl = Inr pj"
      "pool_Exec env c (workerPayload pj) = Inr (Msg response rest)"
      "resp_Error response = None"
proof (cases "json_Marshal env pl")
  case (Inl err)
  then show ?thesis by (rule marshal)
next
  case (Inr pj)
  show ?thesis
  proof (cases "pool_Exec env c (workerPayload pj)")
    case (Inl err)
    with Inr show ?thesis by (rule exec)
  next
    case ch: (Inr ch)
    show ?thesis
    proof (cases ch)
      case Closed
      with Inr ch show ?thesis by (auto intro: closed)
    next
      case Blocked
      with Inr ch show ?thesis by (auto intro: blocked)
    next
      case (Msg response rest)
      show ?thesis
      proof (cases "resp_Error response")
        case None
        with Inr ch Msg show ?thesis by (auto intro: body)
      next
        case (Some err)
        with Inr ch Msg show ?thesis by (auto intro: error)
      qed
    qed
  qed
qed

lemma sendEvent_preserves:
  assumes "sendEvent env c sid ev pl p = Some (p1, res)"
  shows "sessions p1 = sessions p \<and> tools p1 = tools p \<and> cfg p1 = cfg p
       \<and> (trace p1 = trace p \<or> (\<exists>wp. trace p1 = trace p @ [PoolExec c wp]))"
  using assms
  by (cases rule: sendEvent_outcome [where env = env and pl = pl and c = c]) (auto simp: sendEvent_cases)

text \<open>
  C2, as stated, fails: \<^verbatim>\<open>sendEvent\<close> has no check of its context. With a context that
  is already cancelled and a pool that rejects such a call at once, the call of
  \<^verbatim>\<open>Exec\<close> is in the trace all the same.
\<close>

theorem sendEvent_cancelled_context_counterexample:
  "ctx_done CtxCanceled
   \<and> sendEvent (example_env (body_response (Some ''ok''))) CtxCanceled ''s1'' EventCallTool
       example_call example_plugin
     = Some (example_plugin\<lparr>trace := [PoolExec CtxCanceled \<lparr>Context = ''{}'', Body = ''{}''\<rparr>]\<rparr>,
             Inl (E op_send_event (Wrapf ''worker execution failed'' (Ext ContextCanceled))))"
  by (simp add: ctx_done_def sendEvent_def example_env_def example_pool_def ctx_Err_def
        workerPayload_def emit_def example_plugin_def Let_def)

text \<open>
  C2, amended. \<^verbatim>\<open>sendEvent\<close> does not look at the context itself. Once the payload is
  serialised it calls the pool's \<^verbatim>\<open>Exec\<close> exactly once and hands it the caller's
  context, whatever state that context is in; when the context is cancelled or past
  its deadline and \<^verbatim>\<open>Exec\<close> rejects the call with the context's error, \<^verbatim>\<open>sendEvent\<close>
  returns that error wrapped, which \<^const>\<open>is_cancelled\<close> recognises.
\<close>

theorem sendEvent_hands_context_to_pool:
  assumes "json_Marshal env pl = Inr payloadJSON"
  shows "(\<forall>p' res. sendEvent env c sid ev pl p = Some (p', res) \<longrightarrow>
            trace p' = trace p @ [PoolExec c (workerPayload payloadJSON)])
       \<and> (\<forall>err. ctx_Err c = Some err \<and> pool_Exec env c (workerPayload payloadJSON) = Inl err \<longrightarrow>
            sendEvent env c sid ev pl p =
              Some (emit (PoolExec c (workerPayload payloadJSON)) p,
                    Inl (E op_send_event (Wrapf ''worker execution failed'' (Ext err))))
          \<and> is_cancelled (E op_send_event (Wrapf ''worker execution failed'' (Ext err))))"
proof (intro conjI allI impI)
  fix p' res
  assume "sendEvent env c sid ev pl p = Some (p', res)"
  with assms show "trace p' = trace p @ [PoolExec c (workerPayload payloadJSON)]"
    by (cases rule: sendEvent_outcome [where env = env and pl = pl and c = c]) (auto simp: sendEvent_cases emit_def)
next
  fix err
  assume a: "ctx_Err c = Some err \<and> pool_Exec env c (workerPayload payloadJSON) = Inl err"
  with assms show "sendEvent env c sid ev pl p =
      Some (emit (PoolExec c (workerPayload payloadJSON)) p,
            Inl (E op_send_event (Wrapf ''worker execution failed'' (Ext err))))"
    by (simp add: sendEvent_exec_failed)
  from a show "is_cancelled (E op_send_event (Wrapf ''worker execution failed'' (Ext err)))"
    by (cases c) (auto simp: ctx_Err_def is_cancelled_def)
qed

theorem sendEvent_hands_context_to_pool_witness:
  "json_Marshal (example_env (body_response (Some ''ok''))) example_call = Inr ''{}''
   \<and> ctx_Err CtxDeadlineExceeded = Some ContextDeadlineExceeded
   \<and> pool_Exec (example_env (body_response (Some ''ok''))) CtxDeadlineExceeded
        (workerPayload ''{}'') = Inl ContextDeadlineExceeded
   \<and> sendEvent (example_env (body_response (Some ''ok''))) CtxDeadlineExceeded ''s1''
        EventCallTool example_call example_plugin
      = Some (emit (PoolExec CtxDeadlineExceeded (workerPayload ''{}'')) example_plugin,
              Inl (E op_send_event
                     (Wrapf ''worker execution failed'' (Ext ContextDeadlineExceeded))))
   \<and> is_cancelled (E op_send_event
                     (Wrapf ''worker execution failed'' (Ext ContextDeadlineExceeded)))"
proof -
  let ?env = "example_env (body_response (Some ''ok''))"
  have h: "json_Marshal ?env example_call = Inr ''{}''"
    by (simp add: example_env_def)
  have e: "ctx_Err CtxDeadlineExceeded = Some ContextDeadlineExceeded"
    by (simp add: ctx_Err_def)
  have x: "pool_Exec ?env CtxDeadlineExceeded (workerPayload ''{}'') = Inl ContextDeadlineExceeded"
    by (simp add: example_env_def example_pool_def ctx_Err_def)
  from sendEvent_hands_context_to_pool
         [OF h, of CtxDeadlineExceeded "''s1''" EventCallTool example_plugin] h e x
  show ?thesis by simp
qed

text \<open>
  C5, as stated, fails: \<^verbatim>\<open>sendEvent\<close> returns \<^verbatim>\<open>response.Body()\<close> as it is, so a first
  response without an error and with a nil body comes back as a nil body together
  with a nil error.
\<close>

theorem sendEvent_nil_body_counterexample:
  "sendEvent (example_env (body_response None)) CtxActive ''s1'' EventCallTool
     example_call example_plugin
   = Some (example_plugin\<lparr>trace := [PoolExec CtxActive \<lparr>Context = ''{}'', Body = ''{}''\<rparr>]\<rparr>,
           Inr None)"
  by (simp add: sendEvent_def example_env_def example_pool_def ctx_Err_def body_response_def
        workerPayload_def emit_def example_plugin_def Let_def)

text \<open>What each result of \<^verbatim>\<open>sendEvent\<close> says about the collaborators.\<close>

lemma sendEvent_None_iff:
  "sendEvent env c sid ev pl p = None \<longleftrightarrow>
     (\<exists>pj. json_Marshal env pl = Inr pj \<and> pool_Exec env c (workerPayload pj) = Inr Blocked)"
  by (cases rule: sendEvent_outcome [where env = env and pl = pl and c = c])
     (auto simp: sendEvent_cases)

lemma sendEvent_Inr_iff:
  "sendEvent env c sid ev pl p = Some (p', Inr b) \<longleftrightarrow>
     (\<exists>pj response rest. json_Marshal env pl = Inr pj
        \<and> pool_Exec env c (workerPayload pj) = Inr (Msg response rest)
        \<and> resp_Error response = None \<and> b = resp_Body response
        \<and> p' = emit (PoolExec c (workerPayload pj)) p)"
  by (cases rule: sendEvent_outcome [where env = env and pl = pl and c = c])
     (auto simp: sendEvent_cases)

lemma sendEvent_Inl_iff:
  "sendEvent env c sid ev pl p = Some (p', Inl e) \<longleftrightarrow>
     (\<exists>err. json_Marshal env pl = Inl err \<and> p' = p
        \<and> e = E op_send_event (Wrapf ''failed to marshal payload'' (Ext err)))
   \<or> (\<exists>pj err. json_Marshal env pl = Inr pj \<and> pool_Exec env c (workerPayload pj) = Inl err
        \<and> p' = emit (PoolExec c (workerPayload pj)) p
        \<and> e = E op_send_event (Wrapf ''worker execution failed'' (Ext err)))
   \<or> (\<exists>pj response rest err. json_Marshal env pl = Inr pj
        \<and> pool_Exec env c (workerPayload pj) = Inr (Msg response rest)
        \<and> resp_Error response = Some err
        \<and> p' = emit (PoolExec c (workerPayload pj)) p
        \<and> e = E op_send_event (Ext err))
   \<or> (\<exists>pj. json_Marshal env pl = Inr pj \<and> pool_Exec env c (workerPayload pj) = Inr Closed
        \<and> p' = emit (PoolExec c (workerPayload pj)) p
        \<and> e = E op_send_event (Str ''no response from worker''))"
  by (cases rule: sendEvent_outcome [where env = env and pl = pl and c = c])
     (auto simp: sendEvent_cases)

text \<open>
  C5, amended. \<^verbatim>\<open>sendEvent\<close> returns unless the response channel stays open without
  delivering anything. Whenever it returns, it has called \<^verbatim>\<open>Exec\<close> at most once; a nil
  error comes with the body of the first response exactly as the worker sent it
  (nil only when that body is nil); and a non-nil error is one of four: the
  serialisation failure, the failure of \<^verbatim>\<open>Exec\<close>, the error carried by the first
  response, or \<^verbatim>\<open>no response from worker\<close> when the channel was closed empty.
\<close>

theorem sendEvent_definitive:
  "(sendEvent env c sid ev pl p = None \<longleftrightarrow>
      (\<exists>pj. json_Marshal env pl = Inr pj \<and> pool_Exec env c (workerPayload pj) = Inr Blocked))
   \<and> (\<forall>p' res. sendEvent env c sid ev pl p = Some (p', res) \<longrightarrow>
         (trace p' = trace p \<or> (\<exists>wp. trace p' = trace p @ [PoolExec c wp]))
       \<and> (\<forall>b. res = Inr b \<longrightarrow>
            (\<exists>pj response rest. json_Marshal env pl = Inr pj
               \<and> pool_Exec env c (workerPayload pj) = Inr (Msg response rest)
               \<and> resp_Error response = None \<and> b = resp_Body response))
       \<and> (\<forall>e. res = Inl e \<longrightarrow>
            (\<exists>err. json_Marshal env pl = Inl err
               \<and> e = E op_send_event (Wrapf ''failed to marshal payload'' (Ext err)))
          \<or> (\<exists>pj err. json_Marshal env pl = Inr pj
               \<and> pool_Exec env c (workerPayload pj) = Inl err
               \<and> e = E op_send_event (Wrapf ''worker execution failed'' (Ext err)))
          \<or> (\<exists>pj response rest err. json_Marshal env pl = Inr pj
               \<and> pool_Exec env c (workerPayload pj) = Inr (Msg response rest)
               \<and> resp_Error response = Some err
               \<and> e = E op_send_event (Ext err))
          \<or> (\<exists>pj. json_Marshal env pl = Inr pj
               \<and> pool_Exec env c (workerPayload pj) = Inr Closed
               \<and> e = E op_send_event (Str ''no response from worker''))))"
proof (intro conjI allI impI)
  show "sendEvent env c sid ev pl p = None \<longleftrightarrow>
      (\<exists>pj. json_Marshal env pl = Inr pj \<and> pool_Exec env c (workerPayload pj) = Inr Blocked)"
    by (rule sendEvent_None_iff)
next
  fix p' res
  assume "sendEvent env c sid ev pl p = Some (p', res)"
  then show "trace p' = trace p \<or> (\<exists>wp. trace p' = trace p @ [PoolExec c wp])"
    by (simp add: sendEvent_preserves)
next
  fix p' res b
  assume "sendEvent env c sid ev pl p = Some (p', res)" and "res = Inr b"
  then have "sendEvent env c sid ev pl p = Some (p', Inr b)" by simp
  then show "\<exists>pj response rest. json_Marshal env pl = Inr pj
               \<and> pool_Exec env c (workerPayload pj) = Inr (Msg response rest)
               \<and> resp_Error response = None \<and> b = resp_Body response"
    unfolding sendEvent_Inr_iff by blast
next
  fix p' res e
  assume "sendEvent env c sid ev pl p = Some (p', res)" and "res = Inl e"
  then have "sendEvent env c sid ev pl p = Some (p', Inl e)" by simp
  then show "(\<exists>err. json_Marshal env pl = Inl err
               \<and> e = E op_send_event (Wrapf ''failed to marshal payload'' (Ext err)))
          \<or> (\<exists>pj err. json_Marshal env pl = Inr pj
               \<and> pool_Exec env c (workerPayload pj) = Inl err
               \<and> e = E op_send_event (Wrapf ''worker execution failed'' (Ext err)))
          \<or> (\<exists>pj response rest err. json_Marshal env pl = Inr pj
               \<and> pool_Exec env c (workerPayload pj) = Inr (Msg response rest)
               \<and> resp_Error response = Some err
               \<and> e = E op_send_event (Ext err))
          \<or> (\<exists>pj. json_Marshal env pl = Inr pj
               \<and> pool_Exec env c (workerPayload pj) = Inr Closed
               \<and> e = E op_send_event (Str ''no response from worker''))"
    unfolding sendEvent_Inl_iff by blast
qed

theorem sendEvent_definitive_witness:
  "sendEvent (example_env (body_response (Some ''ok''))) CtxActive ''s1'' EventCallTool
     example_call example_plugin
   = Some (emit (PoolExec CtxActive (workerPayload ''{}'')) example_plugin, Inr (Some ''ok''))
   \<and> trace (emit (PoolExec CtxActive (workerPayload ''{}'')) example_plugin)
       = trace example_plugin @ [PoolExec CtxActive (workerPayload ''{}'')]
   \<and> (\<exists>pj response rest.
         json_Marshal (example_env (body_response (Some ''ok''))) example_call = Inr pj
       \<and> pool_Exec (example_env (body_response (Some ''ok''))) CtxActive (workerPayload pj)
           = Inr (Msg response rest)
       \<and> resp_Error response = None \<and> Some ''ok'' = resp_Body response)"
proof -
  let ?env = "example_env (body_response (Some ''ok''))"
  have run: "sendEvent ?env CtxActive ''s1'' EventCallTool example_call example_plugin
      = Some (emit (PoolExec CtxActive (workerPayload ''{}'')) example_plugin, Inr (Some ''ok''))"
    by (simp add: sendEvent_def example_env_def example_pool_def ctx_Err_def body_response_def
          Let_def)
  have tr: "trace (emit (PoolExec CtxActive (workerPayload ''{}'')) example_plugin)
       = trace example_plugin @ [PoolExec CtxActive (workerPayload ''{}'')]"
    by (simp add: emit_def)
  from sendEvent_definitive
         [of ?env CtxActive "''s1''" EventCallTool example_call example_plugin] run
  have "\<exists>pj response rest. json_Marshal ?env example_call = Inr pj
       \<and> pool_Exec ?env CtxActive (workerPayload pj) = Inr (Msg response rest)
       \<and> resp_Error response = None \<and> Some ''ok'' = resp_Body response"
    by blast
  with run tr show ?thesis by blast
qed

text \<open>
  The \<^verbatim>\<open>headers\<close> map itself always has the event name, the session id and the
  content type, and the client token exactly when the session is tracked with a
  non-empty token.
\<close>

lemma sendEvent_headers_fields:
  "map_of (sendEvent_headers sessionInfo sessionID eventName) ''X-MCP-Event'' = Some [eventName]
   \<and> map_of (sendEvent_headers sessionInfo sessionID eventName) ''X-Session-ID''
       = Some [sessionID]
   \<and> map_of (sendEvent_headers sessionInfo sessionID eventName) ''Content-Type''
       = Some [''application/json'']
   \<and> map_of (sendEvent_headers sessionInfo sessionID eventName) ''X-Client-Token''
       = (case sessionInfo of
            None \<Rightarrow> None
          | Some info \<Rightarrow> if Token info \<noteq> '''' then Some [Token info] else None)"
  by (simp add: sendEvent_headers_def Let_def update_conv' split: option.splits)

text \<open>
  C6. The envelope that reaches the pool carries no headers: for the session
  \<^verbatim>\<open>s1\<close> with the stored token \<^verbatim>\<open>secret\<close> the \<^verbatim>\<open>headers\<close> map holds the token, but the
  payload passed to \<^verbatim>\<open>Exec\<close> has the serialised payload as \<^verbatim>\<open>Context\<close> and as \<^verbatim>\<open>Body\<close>
  and nothing else, the same as for a plugin that tracks no session at all.
\<close>

theorem sendEvent_envelope_lacks_headers:
  "map_of (sendEvent_headers (sessions plugin_with_session ''s1'') ''s1'' EventCallTool)
     ''X-Client-Token'' = Some [''secret'']
   \<and> sendEvent (example_env (body_response (Some ''ok''))) CtxActive ''s1'' EventCallTool
       example_call plugin_with_session
     = Some (plugin_with_session
               \<lparr>trace := [PoolExec CtxActive \<lparr>Context = ''{}'', Body = ''{}''\<rparr>]\<rparr>,
             Inr (Some ''ok''))
   \<and> sendEvent (example_env (body_response (Some ''ok''))) CtxActive ''s1'' EventCallTool
       example_call example_plugin
     = Some (example_plugin
               \<lparr>trace := [PoolExec CtxActive \<lparr>Context = ''{}'', Body = ''{}''\<rparr>]\<rparr>,
             Inr (Some ''ok''))"
  by (simp add: sendEvent_headers_def sendEvent_def example_env_def example_pool_def ctx_Err_def
        body_response_def workerPayload_def emit_def example_plugin_def plugin_with_session_def
        example_session_def Let_def)

section \<open>Properties of the tool handler\<close>

text \<open>The handler on the path where the worker's body decodes.\<close>

lemma createToolHandler_decoded:
  assumes "json_Marshal_args env args = Inr argsJSON"
      and "json_Marshal env
             (CallTool \<lparr>ctp_SessionID = request_sessionID env request, ToolName = toolName,
                        Arguments = argsJSON\<rparr>) = Inr payloadJSON"
      and "pool_Exec env c (workerPayload payloadJSON) = Inr (Msg response rest)"
      and "resp_Error response = None"
      and "Unmarshal_CallToolResponse env (resp_Body response) = Inr result"
  shows "createToolHandler env toolName c request args p =
           Some (emit (PoolExec c (workerPayload payloadJSON))
                   (updateSessionActivity env (request_sessionID env request) p),
                 Inr \<lparr>res_Content = map convert_content (Content result),
                      res_IsError = IsError result\<rparr>)"
  using assms
  by (simp add: createToolHandler_def Let_def sendEvent_response_body [where rest = rest])

lemma convert_content_cases:
  "convert_content c =
     (if Type c = ''image'' then ImageContent (Data c) (MimeType c) else TextContent (Text c))"
  by (simp add: convert_content_def)

text \<open>
  C3. When the arguments and the payload serialise, the first response of the worker
  carries no error and its body decodes to a \<^verbatim>\<open>CallToolResponse\<close> with \<^verbatim>\<open>isError\<close> set,
  the handler returns a result and no error: \<^verbatim>\<open>IsError\<close> is true and the content is
  the decoded content, item by item and in order: an \<^verbatim>\<open>image\<close> item as an image with
  its data and MIME type, every other item as a text with its \<^verbatim>\<open>Text\<close> field.
\<close>

theorem createToolHandler_relays_tool_error:
  assumes "json_Marshal_args env args = Inr argsJSON"
      and "json_Marshal env
             (CallTool \<lparr>ctp_SessionID = request_sessionID env request, ToolName = toolName,
                        Arguments = argsJSON\<rparr>) = Inr payloadJSON"
      and "pool_Exec env c (workerPayload payloadJSON) = Inr (Msg response rest)"
      and "resp_Error response = None"
      and "Unmarshal_CallToolResponse env (resp_Body response) = Inr result"
      and "IsError result"
  shows "createToolHandler env toolName c request args p =
           Some (emit (PoolExec c (workerPayload payloadJSON))
                   (updateSessionActivity env (request_sessionID env request) p),
                 Inr \<lparr>res_Content =
                        map (\<lambda>item. if Type item = ''image''
                                     then ImageContent (Data item) (MimeType item)
                                     else TextContent (Text item))
                          (Content result),
                      res_IsError = True\<rparr>)"
proof -
  have "map convert_content (Content result) =
      map (\<lambda>item. if Type item = ''image'' then ImageContent (Data item) (MimeType item)
                   else TextContent (Text item))
        (Content result)"
    by (simp add: convert_content_cases)
  with createToolHandler_decoded [OF assms(1-5), of p] assms(6) show ?thesis
    by simp
qed

theorem createToolHandler_relays_tool_error_witness:
  "json_Marshal_args (example_env (body_response (Some ''image-failed''))) None = Inr ''{}''
   \<and> IsError example_image_response
   \<and> createToolHandler (example_env (body_response (Some ''image-failed''))) ''t1'' CtxActive
        example_request None plugin_with_session
      = Some (emit (PoolExec CtxActive (workerPayload ''{}''))
                (updateSessionActivity (example_env (body_response (Some ''image-failed'')))
                   ''s1'' plugin_with_session),
              Inr \<lparr>res_Content = [TextContent ''boom'', ImageContent ''aGk='' ''image/png'',
                                   TextContent ''see file''],
                   res_IsError = True\<rparr>)"
proof -
  let ?env = "example_env (body_response (Some ''image-failed''))"
  have sid: "request_sessionID ?env example_request = ''s1''"
    by (simp add: request_sessionID_def example_request_def example_env_def
          example_Sprintf_v_def)
  have h1: "json_Marshal_args ?env None = Inr ''{}''"
    by (simp add: example_env_def)
  have h2: "json_Marshal ?env
      (CallTool \<lparr>ctp_SessionID = request_sessionID ?env example_request, ToolName = ''t1'',
                 Arguments = ''{}''\<rparr>) = Inr ''{}''"
    by (simp add: example_env_def)
  have h3: "pool_Exec ?env CtxActive (workerPayload ''{}'')
      = Inr (Msg (body_response (Some ''image-failed'')) Closed)"
    by (simp add: example_env_def example_pool_def ctx_Err_def)
  have h4: "resp_Error (body_response (Some ''image-failed'')) = None"
    by (simp add: body_response_def)
  have h5: "Unmarshal_CallToolResponse ?env (resp_Body (body_response (Some ''image-failed'')))
      = Inr example_image_response"
    by (simp add: example_env_def example_Unmarshal_tool_def body_response_def)
  have h6: "IsError example_image_response"
    by (simp add: example_image_response_def)
  have m: "map (\<lambda>item. if Type item = ''image'' then ImageContent (Data item) (MimeType item)
                        else TextContent (Text item))
             (Content example_image_response)
      = [TextContent ''boom'', ImageContent ''aGk='' ''image/png'', TextContent ''see file'']"
    by (simp add: example_image_response_def)
  from createToolHandler_relays_tool_error
         [OF h1 h2 h3 h4 h5 h6, of plugin_with_session] h1 h6 sid m
  show ?thesis by simp
qed

text \<open>
  C7. On the same path, whatever \<^verbatim>\<open>isError\<close> says, the handler returns a result with
  as many content items as the worker sent, and every item whose type is neither
  \<^verbatim>\<open>text\<close> nor \<^verbatim>\<open>image\<close> (\<^verbatim>\<open>resource\<close> or anything else) becomes a text item with the
  item's \<^verbatim>\<open>Text\<close> field.
\<close>

theorem createToolHandler_unknown_content_as_text:
  assumes "json_Marshal_args env args = Inr argsJSON"
      and "json_Marshal env
             (CallTool \<lparr>ctp_SessionID = request_sessionID env request, ToolName = toolName,
                        Arguments = argsJSON\<rparr>) = Inr payloadJSON"
      and "pool_Exec env c (workerPayload payloadJSON) = Inr (Msg response rest)"
      and "resp_Error response = None"
      and "Unmarshal_CallToolResponse env (resp_Body response) = Inr result"
  shows "\<exists>p' res. createToolHandler env toolName c request args p = Some (p', Inr res)
           \<and> length (res_Content res) = length (Content result)
           \<and> (\<forall>i<length (Content result).
                 Type (Content result ! i) \<noteq> ''text'' \<and> Type (Content result ! i) \<noteq> ''image''
                 \<longrightarrow> res_Content res ! i = TextContent (Text (Content result ! i)))"
proof -
  have "\<forall>i<length (Content result).
          Type (Content result ! i) \<noteq> ''text'' \<and> Type (Content result ! i) \<noteq> ''image''
          \<longrightarrow> map convert_content (Content result) ! i = TextContent (Text (Content result ! i))"
    by (simp add: convert_content_def)
  with createToolHandler_decoded [OF assms, of p] show ?thesis
    by simp
qed

theorem createToolHandler_unknown_content_as_text_witness:
  "Type (Content example_tool_response ! 1) = ''resource''
   \<and> (\<exists>p' res.
         createToolHandler (example_env (body_response (Some ''tool-failed''))) ''t1'' CtxActive
           example_request None plugin_with_session = Some (p', Inr res)
       \<and> length (res_Content res) = 2
       \<and> res_Content res ! 1 = TextContent ''see file'')"
proof -
  let ?env = "example_env (body_response (Some ''tool-failed''))"
  have h1: "json_Marshal_args ?env None = Inr ''{}''"
    by (simp add: example_env_def)
  have h2: "json_Marshal ?env
      (CallTool \<lparr>ctp_SessionID = request_sessionID ?env example_request, ToolName = ''t1'',
                 Arguments = ''{}''\<rparr>) = Inr ''{}''"
    by (simp add: example_env_def)
  have h3: "pool_Exec ?env CtxActive (workerPayload ''{}'')
      = Inr (Msg (body_response (Some ''tool-failed'')) Closed)"
    by (simp add: example_env_def example_pool_def ctx_Err_def)
  have h4: "resp_Error (body_response (Some ''tool-failed'')) = None"
    by (simp add: body_response_def)
  have h5: "Unmarshal_CallToolResponse ?env (resp_Body (body_response (Some ''tool-failed'')))
      = Inr example_tool_response"
    by (simp add: example_env_def example_Unmarshal_tool_def body_response_def)
  have t: "Type (Content example_tool_response ! 1) = ''resource''"
    and x: "Text (Content example_tool_response ! 1) = ''see file''"
    and l: "length (Content example_tool_response) = 2"
    by (simp_all add: example_tool_response_def)
  from createToolHandler_unknown_content_as_text
         [OF h1 h2 h3 h4 h5, of plugin_with_session]
  obtain p' res where r:
    "createToolHandler ?env ''t1'' CtxActive example_request None plugin_with_session
       = Some (p', Inr res)"
    "length (res_Content res) = length (Content example_tool_response)"
    "\<forall>i<length (Content example_tool_response).
       Type (Content example_tool_response ! i) \<noteq> ''text''
       \<and> Type (Content example_tool_response ! i) \<noteq> ''image''
       \<longrightarrow> res_Content res ! i = TextContent (Text (Content example_tool_response ! i))"
    by blast
  from r(3) t x l have "res_Content res ! 1 = TextContent ''see file''"
    by simp
  with r(1,2) l t show ?thesis by auto
qed

section \<open>Properties of the SSE transport\<close>

lemma authenticateSession_rejects:
  assumes "Enabled (cfg p)"
      and "sendEvent env c sid EventClientConnected
             (ClientConnected \<lparr>ccp_SessionID = sid, Credentials = creds\<rparr>) p = Some (p1, res)"
      and "(\<exists>e. res = Inl e)
         \<or> (\<exists>b e. res = Inr b \<and> Unmarshal_ClientConnectedResponse env b = Inl e)
         \<or> (\<exists>b a. res = Inr b \<and> Unmarshal_ClientConnectedResponse env b = Inr a \<and> \<not> Allowed a)"
  shows "\<exists>e. authenticateSession env c sid creds p = Some (p1, Inl e)"
  using assms by (auto simp: authenticateSession_def Let_def)

text \<open>
  C4. With authentication enabled, when the dispatch of the \<^verbatim>\<open>ClientConnected\<close> event
  returns an error, or a body that does not decode, or a decoded response with
  \<^verbatim>\<open>allowed\<close> false, \<^verbatim>\<open>authenticateSession\<close> returns an error. The SSE handler then
  answers 401 and returns: the session registry is what it was before the
  connection attempt, and the SDK server was not connected to the transport, so no
  tool call of that client can arrive.
\<close>

theorem authentication_rejected_refuses_connection:
  assumes "Enabled (cfg p)"
      and "sendEvent env c sid EventClientConnected
             (ClientConnected \<lparr>ccp_SessionID = sid, Credentials = creds\<rparr>) p = Some (p1, res)"
      and "(\<exists>e. res = Inl e)
         \<or> (\<exists>b e. res = Inr b \<and> Unmarshal_ClientConnectedResponse env b = Inl e)
         \<or> (\<exists>b a. res = Inr b \<and> Unmarshal_ClientConnectedResponse env b = Inr a \<and> \<not> Allowed a)"
  shows "(\<exists>e. authenticateSession env c sid creds p = Some (p1, Inl e))
       \<and> (c = req_Context r \<and> creds = sse_credentials r \<longrightarrow>
            sse_accept env sid r p = Some (emit (HttpError ''Authentication failed'' 401) p1, False)
          \<and> sse_handler env sid r p = Some (emit (HttpError ''Authentication failed'' 401) p1)
          \<and> sessions (emit (HttpError ''Authentication failed'' 401) p1) = sessions p
          \<and> Connect sid \<notin> set (drop (length (trace p))
                                   (trace (emit (HttpError ''Authentication failed'' 401) p1))))"
proof (intro conjI impI)
  from assms obtain e where auth: "authenticateSession env c sid creds p = Some (p1, Inl e)"
    using authenticateSession_rejects by blast
  then show "\<exists>e. authenticateSession env c sid creds p = Some (p1, Inl e)" ..
  assume r: "c = req_Context r \<and> creds = sse_credentials r"
  with auth assms(1)
  show accept: "sse_accept env sid r p
      = Some (emit (HttpError ''Authentication failed'' 401) p1, False)"
    by (simp add: sse_accept_def Let_def)
  then show "sse_handler env sid r p = Some (emit (HttpError ''Authentication failed'' 401) p1)"
    by (simp add: sse_handler_def)
  from sendEvent_preserves [OF assms(2)]
  show "sessions (emit (HttpError ''Authentication failed'' 401) p1) = sessions p"
    by simp
  from sendEvent_preserves [OF assms(2)]
  show "Connect sid \<notin> set (drop (length (trace p))
                             (trace (emit (HttpError ''Authentication failed'' 401) p1)))"
    by auto
qed

theorem authentication_rejected_refuses_connection_witness:
  "Enabled (cfg example_plugin)
   \<and> sendEvent (example_env (body_response (Some ''deny''))) CtxActive ''s2''
       EventClientConnected
       (ClientConnected \<lparr>ccp_SessionID = ''s2'',
                         Credentials = sse_credentials example_http_request\<rparr>)
       example_plugin
     = Some (emit (PoolExec CtxActive (workerPayload ''{}'')) example_plugin, Inr (Some ''deny''))
   \<and> Unmarshal_ClientConnectedResponse (example_env (body_response (Some ''deny'')))
       (Some ''deny'') = Inr \<lparr>Allowed = False, ccr_Token = '''', Message = ''no''\<rparr>
   \<and> sse_handler (example_env (body_response (Some ''deny''))) ''s2'' example_http_request
       example_plugin
     = Some (emit (HttpError ''Authentication failed'' 401)
               (emit (PoolExec CtxActive (workerPayload ''{}'')) example_plugin))
   \<and> sessions (emit (HttpError ''Authentication failed'' 401)
                 (emit (PoolExec CtxActive (workerPayload ''{}'')) example_plugin)) ''s2'' = None"
proof -
  let ?env = "example_env (body_response (Some ''deny''))"
  let ?p1 = "emit (PoolExec CtxActive (workerPayload ''{}'')) example_plugin"
  have h1: "Enabled (cfg example_plugin)"
    by (simp add: example_plugin_def example_cfg_def)
  have h2: "sendEvent ?env CtxActive ''s2'' EventClientConnected
       (ClientConnected \<lparr>ccp_SessionID = ''s2'',
                         Credentials = sse_credentials example_http_request\<rparr>)
       example_plugin = Some (?p1, Inr (Some ''deny''))"
    by (simp add: sendEvent_def example_env_def example_pool_def ctx_Err_def body_response_def
          Let_def)
  have d: "Unmarshal_ClientConnectedResponse ?env (Some ''deny'')
      = Inr \<lparr>Allowed = False, ccr_Token = '''', Message = ''no''\<rparr>"
    by (simp add: example_env_def example_Unmarshal_auth_def)
  then have h3: "(\<exists>e. (Inr (Some ''deny'') :: error + byte_slice) = Inl e)
      \<or> (\<exists>b e. (Inr (Some ''deny'') :: error + byte_slice) = Inr b
            \<and> Unmarshal_ClientConnectedResponse ?env b = Inl e)
      \<or> (\<exists>b a. (Inr (Some ''deny'') :: error + byte_slice) = Inr b
            \<and> Unmarshal_ClientConnectedResponse ?env b = Inr a \<and> \<not> Allowed a)"
    by simp
  have c: "CtxActive = req_Context example_http_request"
    by (simp add: example_http_request_def)
  have s: "sessions example_plugin ''s2'' = None"
    by (simp add: example_plugin_def)
  from authentication_rejected_refuses_connection [OF h1 h2 h3, of example_http_request] c s
  have "sse_handler ?env ''s2'' example_http_request example_plugin
          = Some (emit (HttpError ''Authentication failed'' 401) ?p1)
      \<and> sessions (emit (HttpError ''Authentication failed'' 401) ?p1) ''s2'' = None"
    by simp
  with h1 h2 d show ?thesis by simp
qed

end
